theory Spec2Isabelle
  imports Main "HOL-Library.AList" "HOL-Library.Sublist"
begin

section \<open>Platform functions used by the sources\<close>

text \<open>
  Strings are lists of bytes (the UTF-8 encoding of the JavaScript string).

  \<^verbatim>\<open>String.prototype.endsWith\<close>: the receiver ends with the search string.
\<close>

definition endsWith :: "string \<Rightarrow> string \<Rightarrow> bool" where
  "endsWith s t = (length t \<le> length s \<and> drop (length s - length t) s = t)"

text \<open>
  \<^verbatim>\<open>new URL(url).hostname\<close> is a function of the platform, not of this repository. It
  enters every definition below as a parameter: \<open>None\<close> when the constructor throws,
  \<open>Some h\<close> when it returns a URL whose hostname is \<open>h\<close>. Every theorem holds for every
  such function, in particular for the platform's.
\<close>

type_synonym url_parser = "string \<Rightarrow> string option"

text \<open>
  A finite excerpt of the platform's URL parser, for evaluating the definitions at
  concrete inputs. Each row is what \<^verbatim>\<open>new URL(s).hostname\<close> returns (the parser removes
  the line feed of the second row before it reads the URL). Every other
  string counts as unparsable here; the evaluations below rely on that only for the empty
  string and for strings that start with \<^verbatim>\<open>/\<close>, on which the constructor throws (there
  is no base URL).
\<close>

definition sample_hostname :: url_parser where
  "sample_hostname u =
     (if u = ''https://s3.amazonaws.com/x'' then Some ''s3.amazonaws.com''
      else if u = ''https://s3.amazonaws.com/x'' @ [CHR 0x0A] then Some ''s3.amazonaws.com''
      else if u = ''https://amazonaws.com/x'' then Some ''amazonaws.com''
      else if u = ''https://www.notion.so/f.pdf'' then Some ''www.notion.so''
      else if u = ''https://notion.so/f.pdf'' then Some ''notion.so''
      else if u = ''https://evilamazonaws.com/x'' then Some ''evilamazonaws.com''
      else if u = ''https://example.com/a.png'' then Some ''example.com''
      else None)"

text \<open>
  \<^verbatim>\<open>encodeURIComponent\<close> on the bytes of a well-formed string: the unreserved
  characters \<^verbatim>\<open>A-Z a-z 0-9 - _ . ! ~ * ' ( )\<close> stand for themselves, every other byte
  becomes \<^verbatim>\<open>%XX\<close> with upper-case hexadecimal digits.
\<close>

definition hex_digit :: "nat \<Rightarrow> char" where
  "hex_digit n = ''0123456789ABCDEF'' ! (n mod 16)"

definition uri_unreserved :: "char \<Rightarrow> bool" where
  "uri_unreserved c =
     (c \<in> set ''ABCDEFGHIJKLMNOPQRSTUVWXYZabcdefghijklmnopqrstuvwxyz0123456789-_.!~*()''
      \<or> c = CHR 0x27)"

definition encode_byte :: "char \<Rightarrow> string" where
  "encode_byte c =
     (if uri_unreserved c then [c]
      else [CHR ''%'', hex_digit (of_char c div 16), hex_digit (of_char c mod 16)])"

definition encodeURIComponent :: "string \<Rightarrow> string" where
  "encodeURIComponent s = concat (map encode_byte s)"

section \<open>The URL classifiers\<close>

text \<open>
  \<^verbatim>\<open>isNotionHostedUrl\<close>, the same text in \<^verbatim>\<open>lib/rewrite-notion-pdf-urls.ts\<close> and in
  the file of \<^verbatim>\<open>rewriteNotionFileUrls\<close>:
  \<^verbatim>\<open>
  if (!url) return false
  try {
    const { hostname } = new URL(url)
    return hostname.endsWith('amazonaws.com') || hostname === 'notion.so'
        || hostname.endsWith('.notion.so')
  } catch { return false }
  \<close>
\<close>

definition isNotionHostedUrl :: "url_parser \<Rightarrow> string \<Rightarrow> bool" where
  "isNotionHostedUrl parse url =
     (if url = [] then False
      else case parse url of
        None \<Rightarrow> False
      | Some hostname \<Rightarrow>
          endsWith hostname ''amazonaws.com'' \<or> hostname = ''notion.so''
          \<or> endsWith hostname ''.notion.so'')"

text \<open>
  \<^verbatim>\<open>isAllowedHost\<close>, the same text in both handlers:
  \<^verbatim>\<open>
  const ALLOWED_HOSTS = ['amazonaws.com', 'notion.so']
  try {
    const { hostname } = new URL(rawUrl)
    return ALLOWED_HOSTS.some((host) => hostname === host || hostname.endsWith('.' + host))
  } catch { return false }
  \<close>
\<close>

definition ALLOWED_HOSTS :: "string list" where
  "ALLOWED_HOSTS = [''amazonaws.com'', ''notion.so'']"

definition isAllowedHost :: "url_parser \<Rightarrow> string \<Rightarrow> bool" where
  "isAllowedHost parse rawUrl =
     (case parse rawUrl of
        None \<Rightarrow> False
      | Some hostname \<Rightarrow>
          list_ex (\<lambda>host. hostname = host \<or> endsWith hostname (''.'' @ host)) ALLOWED_HOSTS)"

text \<open>
  The classifier as the specification words it: the string parses, and the hostname is
  an allow-listed domain or a subdomain of one (a label sequence followed by a dot and the
  domain).
\<close>

definition allow_listed_domains :: "string list" where
  "allow_listed_domains = [''amazonaws.com'', ''notion.so'']"

definition is_subdomain_of :: "string \<Rightarrow> string \<Rightarrow> bool" where
  "is_subdomain_of h d = (\<exists>p. h = p @ ''.'' @ d)"

definition on_allow_listed_host :: "url_parser \<Rightarrow> string \<Rightarrow> bool" where
  "on_allow_listed_host parse url =
     (\<exists>h d. parse url = Some h \<and> d \<in> set allow_listed_domains \<and> (h = d \<or> is_subdomain_of h d))"

section \<open>The record map\<close>

text \<open>
  A JavaScript value as the sources observe it. The sources test a value with
  \<^verbatim>\<open>typeof v === 'string'\<close>, test its truthiness, and pass it to \<^verbatim>\<open>new URL\<close>, which
  converts it to a string. \<open>JString s\<close> is the string \<open>s\<close>; \<open>JOther t s\<close> is any value that
  is not a string (a number, an object, \<^verbatim>\<open>null\<close>), with its truthiness \<open>t\<close> and its
  string conversion \<open>s\<close>. \<^verbatim>\<open>undefined\<close>, the result of reading an absent property, is
  \<open>None\<close> in a \<open>jsval option\<close>.
\<close>

datatype jsval = JString string | JOther bool string

fun is_string :: "jsval \<Rightarrow> bool" where
  "is_string (JString s) = True"
| "is_string (JOther t s) = False"

fun truthy :: "jsval option \<Rightarrow> bool" where
  "truthy None = False"
| "truthy (Some (JString s)) = (s \<noteq> [])"
| "truthy (Some (JOther t s)) = t"

fun ToString :: "jsval option \<Rightarrow> string" where
  "ToString None = ''undefined''"
| "ToString (Some (JString s)) = s"
| "ToString (Some (JOther t s)) = s"

text \<open>
  The value of a block: its \<^verbatim>\<open>type\<close>, and what the chain
  \<^verbatim>\<open>properties?.source?.[0]?.[0]\<close> reads from it (\<open>None\<close> when a link of the chain is
  absent). An entry of the block table wraps the value (\<^verbatim>\<open>block[id].value\<close>).
\<close>

record notion_block =
  type :: "string option"
  properties_source_0_0 :: "jsval option"

record block_entry =
  "value" :: "notion_block option"

text \<open>
  An object used as a dictionary is the list of its own properties in enumeration order,
  as \<^verbatim>\<open>Object.entries\<close> returns them; the keys of a JavaScript object are distinct.
  The tables are plain objects (parsed from JSON, or created by \<^verbatim>\<open>{}\<close>), so a read of a
  key they do not own finds the members of \<^verbatim>\<open>Object.prototype\<close>, and an assignment to
  the key \<^verbatim>\<open>__proto__\<close> reaches the accessor inherited from it.
  \<^verbatim>\<open>signed_urls\<close> is \<open>None\<close> when the property is absent. The other properties of the
  record map are the record's extension, which \<^verbatim>\<open>{ ...recordMap, signed_urls: rewritten }\<close>
  copies.
\<close>

record ExtendedRecordMap =
  block :: "(string \<times> block_entry) list"
  signed_urls :: "(string \<times> jsval) list option"

text \<open>
  The members that a plain object inherits from \<^verbatim>\<open>Object.prototype\<close>, as a read
  \<^verbatim>\<open>obj[key]\<close> returns them: the prototype object itself for \<^verbatim>\<open>__proto__\<close>, a built-in
  function for the other names. None of them is a string; all are truthy; the string is
  their string conversion.
\<close>

definition Object_prototype_methods :: "string list" where
  "Object_prototype_methods =
     [''__defineGetter__'', ''__defineSetter__'', ''hasOwnProperty'', ''__lookupGetter__'',
      ''__lookupSetter__'', ''isPrototypeOf'', ''propertyIsEnumerable'', ''toString'',
      ''valueOf'', ''toLocaleString'']"

definition Object_prototype_member :: "string \<Rightarrow> jsval option" where
  "Object_prototype_member key =
     (if key = ''__proto__'' then Some (JOther True ''[object Object]'')
      else if key = ''constructor'' then Some (JOther True ''function Object() { [native code] }'')
      else if key \<in> set Object_prototype_methods
      then Some (JOther True (''function '' @ key @ ''() { [native code] }''))
      else None)"

text \<open>\<^verbatim>\<open>obj[key]\<close> on a table: the own property, else the inherited member, else \<^verbatim>\<open>undefined\<close>.\<close>

definition get_property :: "(string \<times> jsval) list \<Rightarrow> string \<Rightarrow> jsval option" where
  "get_property obj key =
     (case map_of obj key of
        Some v \<Rightarrow> Some v
      | None \<Rightarrow> Object_prototype_member key)"

text \<open>
  \<^verbatim>\<open>obj[key] = s\<close> for a string \<open>s\<close>. When the object does not own \<^verbatim>\<open>__proto__\<close>, an
  assignment to that key calls the inherited setter, which ignores a value that is neither
  an object nor \<^verbatim>\<open>null\<close>: nothing is stored. Every other assignment creates or updates
  an own property (the inherited methods are writable data properties, which an own
  property shadows).
\<close>

definition assign_string ::
  "string \<Rightarrow> string \<Rightarrow> (string \<times> jsval) list \<Rightarrow> (string \<times> jsval) list" where
  "assign_string key s obj =
     (if key = ''__proto__'' \<and> map_of obj key = None then obj
      else AList.update key (JString s) obj)"

text \<open>
  \<^verbatim>\<open>recordMap.block?.[blockId]?.value\<close>. An inherited member has no \<^verbatim>\<open>value\<close>
  property, so for a key that the block table does not own the chain is \<^verbatim>\<open>undefined\<close>.
\<close>

definition block_value :: "'a ExtendedRecordMap_scheme \<Rightarrow> string \<Rightarrow> notion_block option" where
  "block_value recordMap blockId =
     (case map_of (block recordMap) blockId of None \<Rightarrow> None | Some e \<Rightarrow> value e)"

text \<open>\<^verbatim>\<open>block?.type\<close>\<close>

definition blockType_of :: "'a ExtendedRecordMap_scheme \<Rightarrow> string \<Rightarrow> string option" where
  "blockType_of recordMap blockId =
     (case block_value recordMap blockId of None \<Rightarrow> None | Some b \<Rightarrow> type b)"

text \<open>\<^verbatim>\<open>recordMap?.signed_urls?.[blockId]\<close>, a property read.\<close>

definition signed_url_of :: "'a ExtendedRecordMap_scheme \<Rightarrow> string \<Rightarrow> jsval option" where
  "signed_url_of recordMap blockId =
     (case signed_urls recordMap of None \<Rightarrow> None | Some urls \<Rightarrow> get_property urls blockId)"

text \<open>
  The entry of the signed-URL mapping for a key: the own property that
  \<^verbatim>\<open>Object.entries\<close> lists, \<open>None\<close> when the mapping has no entry for the key.
\<close>

definition signed_url_entry :: "'a ExtendedRecordMap_scheme \<Rightarrow> string \<Rightarrow> jsval option" where
  "signed_url_entry recordMap blockId =
     (case signed_urls recordMap of None \<Rightarrow> None | Some urls \<Rightarrow> map_of urls blockId)"

section \<open>The record-map rewriters\<close>

text \<open>
  \<^verbatim>\<open>rewriteNotionPdfUrls\<close> (\<^verbatim>\<open>lib/rewrite-notion-pdf-urls.ts\<close>). One iteration of
  \<^verbatim>\<open>for (const [blockId, signedUrl] of Object.entries(recordMap.signed_urls))\<close>, as a
  function of the object \<^verbatim>\<open>rewritten\<close> built so far; an assignment
  \<^verbatim>\<open>rewritten[blockId] = v\<close> is \<open>assign_string\<close>.
\<close>

definition pdf_proxy_path :: "string \<Rightarrow> string \<Rightarrow> string" where
  "pdf_proxy_path pageId blockId =
     ''/assets-pdf/'' @ encodeURIComponent pageId @ ''/'' @ encodeURIComponent blockId"

fun pdf_step ::
  "url_parser \<Rightarrow> 'a ExtendedRecordMap_scheme \<Rightarrow> string \<Rightarrow> string \<times> jsval
     \<Rightarrow> (string \<times> jsval) list \<Rightarrow> (string \<times> jsval) list" where
  "pdf_step parse recordMap pageId (blockId, JOther t s) rewritten = rewritten"
| "pdf_step parse recordMap pageId (blockId, JString signedUrl) rewritten =
     (if blockType_of recordMap blockId = Some ''pdf'' \<and> isNotionHostedUrl parse signedUrl
      then assign_string blockId (pdf_proxy_path pageId blockId) rewritten
      else assign_string blockId signedUrl rewritten)"

definition rewriteNotionPdfUrls ::
  "url_parser \<Rightarrow> 'a ExtendedRecordMap_scheme \<Rightarrow> string \<Rightarrow> 'a ExtendedRecordMap_scheme" where
  "rewriteNotionPdfUrls parse recordMap pageId =
     (case signed_urls recordMap of
        None \<Rightarrow> recordMap
      | Some urls \<Rightarrow>
          recordMap\<lparr>signed_urls := Some (fold (pdf_step parse recordMap pageId) urls [])\<rparr>)"

text \<open>
  \<^verbatim>\<open>rewriteNotionFileUrls\<close>, with
  \<^verbatim>\<open>const FILE_BLOCK_TYPES = new Set(['pdf', 'file', 'audio', 'video'])\<close> and the test
  \<^verbatim>\<open>blockType && FILE_BLOCK_TYPES.has(blockType) && isNotionHostedUrl(signedUrl)\<close>.
\<close>

definition FILE_BLOCK_TYPES :: "string list" where
  "FILE_BLOCK_TYPES = [''pdf'', ''file'', ''audio'', ''video'']"

definition file_proxy_path :: "string \<Rightarrow> string \<Rightarrow> string" where
  "file_proxy_path pageId blockId =
     ''/api/notion-file?blockId='' @ encodeURIComponent blockId
       @ ''&pageId='' @ encodeURIComponent pageId"

definition is_file_block_type :: "string option \<Rightarrow> bool" where
  "is_file_block_type blockType =
     (case blockType of
        None \<Rightarrow> False
      | Some t \<Rightarrow> t \<noteq> [] \<and> t \<in> set FILE_BLOCK_TYPES)"

fun file_step ::
  "url_parser \<Rightarrow> 'a ExtendedRecordMap_scheme \<Rightarrow> string \<Rightarrow> string \<times> jsval
     \<Rightarrow> (string \<times> jsval) list \<Rightarrow> (string \<times> jsval) list" where
  "file_step parse recordMap pageId (blockId, JOther t s) rewritten = rewritten"
| "file_step parse recordMap pageId (blockId, JString signedUrl) rewritten =
     (if is_file_block_type (blockType_of recordMap blockId) \<and> isNotionHostedUrl parse signedUrl
      then assign_string blockId (file_proxy_path pageId blockId) rewritten
      else assign_string blockId signedUrl rewritten)"

definition rewriteNotionFileUrls ::
  "url_parser \<Rightarrow> 'a ExtendedRecordMap_scheme \<Rightarrow> string \<Rightarrow> 'a ExtendedRecordMap_scheme" where
  "rewriteNotionFileUrls parse recordMap pageId =
     (case signed_urls recordMap of
        None \<Rightarrow> recordMap
      | Some urls \<Rightarrow>
          recordMap\<lparr>signed_urls := Some (fold (file_step parse recordMap pageId) urls [])\<rparr>)"

section \<open>The rewriters on a store\<close>

text \<open>
  JavaScript objects are shared by reference, so whether a rewriter changes its argument
  is a question about the store. A store is the list of the objects allocated so far; an
  address is an index into it. The record map is an object holding references to its
  block table and (when present) to its signed-URL table, and its other properties.
\<close>

type_synonym addr = nat

datatype 'a heap_object =
    RecordMapObject addr "addr option" 'a
  | BlockTable "(string \<times> block_entry) list"
  | UrlTable "(string \<times> jsval) list"

type_synonym 'a heap = "'a heap_object list"

definition heap_read :: "'a heap \<Rightarrow> addr \<Rightarrow> 'a heap_object option" where
  "heap_read h a = (if a < length h then Some (h ! a) else None)"

text \<open>The record map that the object at an address denotes in a store, if it is one.\<close>

definition record_map_at :: "'a heap \<Rightarrow> addr \<Rightarrow> 'a ExtendedRecordMap_scheme option" where
  "record_map_at h a =
     (case heap_read h a of
        Some (RecordMapObject b s rest) \<Rightarrow>
          (case heap_read h b of
             Some (BlockTable blocks) \<Rightarrow>
               (case s of
                  None \<Rightarrow> Some \<lparr>block = blocks, signed_urls = None, \<dots> = rest\<rparr>
                | Some sa \<Rightarrow>
                    (case heap_read h sa of
                       Some (UrlTable urls) \<Rightarrow>
                         Some \<lparr>block = blocks, signed_urls = Some urls, \<dots> = rest\<rparr>
                     | _ \<Rightarrow> None))
           | _ \<Rightarrow> None)
      | _ \<Rightarrow> None)"

text \<open>
  One iteration of the loop in the store: it reads the record map through the argument's
  reference and assigns one property of the object \<^verbatim>\<open>rewritten\<close>. These assignments are
  the only writes in the bodies of both rewriters.
\<close>

definition step_in_heap ::
  "('a ExtendedRecordMap_scheme \<Rightarrow> string \<times> jsval \<Rightarrow> (string \<times> jsval) list \<Rightarrow> (string \<times> jsval) list)
     \<Rightarrow> addr \<Rightarrow> addr \<Rightarrow> string \<times> jsval \<Rightarrow> 'a heap \<Rightarrow> 'a heap" where
  "step_in_heap step recordMap rewritten kv h =
     (case record_map_at h recordMap of
        None \<Rightarrow> h
      | Some rm \<Rightarrow>
          (case heap_read h rewritten of
             Some (UrlTable acc) \<Rightarrow> h[rewritten := UrlTable (step rm kv acc)]
           | _ \<Rightarrow> h))"

text \<open>
  The body shared by both rewriters: return the argument's reference when it has no
  signed-URL table; otherwise allocate \<^verbatim>\<open>rewritten = {}\<close>, run the loop over the entries
  of the argument's table, and allocate the result \<^verbatim>\<open>{ ...recordMap, signed_urls: rewritten }\<close>.
  The result is \<open>None\<close> when the address does not hold a record map.
\<close>

definition rewrite_in_heap ::
  "('a ExtendedRecordMap_scheme \<Rightarrow> string \<times> jsval \<Rightarrow> (string \<times> jsval) list \<Rightarrow> (string \<times> jsval) list)
     \<Rightarrow> 'a heap \<Rightarrow> addr \<Rightarrow> ('a heap \<times> addr) option" where
  "rewrite_in_heap step h recordMap =
     (case record_map_at h recordMap of
        None \<Rightarrow> None
      | Some rm \<Rightarrow>
          (case signed_urls rm of
             None \<Rightarrow> Some (h, recordMap)
           | Some urls \<Rightarrow>
               (let rewritten = length h;
                    h1 = h @ [UrlTable []];
                    h2 = fold (step_in_heap step recordMap rewritten) urls h1
                in case heap_read h2 recordMap of
                     Some (RecordMapObject b s rest) \<Rightarrow>
                       Some (h2 @ [RecordMapObject b (Some rewritten) rest], length h2)
                   | _ \<Rightarrow> None)))"

definition rewriteNotionPdfUrls_heap ::
  "url_parser \<Rightarrow> 'a heap \<Rightarrow> addr \<Rightarrow> string \<Rightarrow> ('a heap \<times> addr) option" where
  "rewriteNotionPdfUrls_heap parse h recordMap pageId =
     rewrite_in_heap (\<lambda>rm. pdf_step parse rm pageId) h recordMap"

definition rewriteNotionFileUrls_heap ::
  "url_parser \<Rightarrow> 'a heap \<Rightarrow> addr \<Rightarrow> string \<Rightarrow> ('a heap \<times> addr) option" where
  "rewriteNotionFileUrls_heap parse h recordMap pageId =
     rewrite_in_heap (\<lambda>rm. file_step parse rm pageId) h recordMap"

section \<open>The HTTP handlers\<close>

text \<open>
  A query parameter or request header is a string, an array of strings, or absent
  (\<open>None\<close>). \<^verbatim>\<open>!v || typeof v !== 'string'\<close> accepts the non-empty strings only.
\<close>

datatype param = PString string | PArray "string list"

record NextApiRequest =
  "method" :: "string option"
  query :: "string \<Rightarrow> param option"
  headers :: "string \<Rightarrow> param option"

fun nonempty_string :: "param option \<Rightarrow> string option" where
  "nonempty_string (Some (PString s)) = (if s = [] then None else Some s)"
| "nonempty_string (Some (PArray xs)) = None"
| "nonempty_string None = None"

text \<open>
  \<^verbatim>\<open>notion.getPage(pageId, { fetchMissingBlocks: false, fetchCollections: false, signFileUrls })\<close>
  is the external client: a parameter, from the page identifier and the signing flag to
  the record map it resolves to (\<open>Inr\<close>) or the error it throws (\<open>Inl\<close>). The handlers
  return the list of the upstream calls they made, in order, and the response they sent.
\<close>

type_synonym page_fetcher = "string \<Rightarrow> bool \<Rightarrow> string + ExtendedRecordMap"

text \<open>
  \<^verbatim>\<open>res.redirect(302, target)\<close> is the framework's: it sends the redirect and returns, or
  it throws before anything is sent (the framework refuses a target that is not a string,
  the platform refuses a \<^verbatim>\<open>Location\<close> value with an illegal character such as a line
  feed). It is a parameter: \<open>None\<close> when the call returns, \<open>Some e\<close> when it throws \<open>e\<close>.
\<close>

type_synonym redirector = "jsval option \<Rightarrow> string option"

datatype upstream_call =
    GetPage string bool
  | Fetch string string "(string \<times> string) list"

datatype body = Ended | Piped | Destroyed

datatype response =
    Json nat string
  | Redirect nat "jsval option" "(string \<times> string) list"
  | Proxied nat "(string \<times> string) list" body

text \<open>The upstream calls that fetch a file, as opposed to a page of the content API.\<close>

fun is_fetch :: "upstream_call \<Rightarrow> bool" where
  "is_fetch (Fetch url m hs) = True"
| "is_fetch (GetPage pageId signFileUrls) = False"

text \<open>\<^verbatim>\<open>recordMap?.block?.[blockId]?.value?.properties?.source?.[0]?.[0]\<close>\<close>

definition raw_source_of :: "ExtendedRecordMap \<Rightarrow> string \<Rightarrow> jsval option" where
  "raw_source_of recordMap blockId =
     (case block_value recordMap blockId of None \<Rightarrow> None | Some b \<Rightarrow> properties_source_0_0 b)"

text \<open>
  \<^verbatim>\<open>notionFileHandler\<close>, the redirect handler. \<^verbatim>\<open>res.status(n).json({ error: m })\<close> is
  \<open>Json n m\<close>, the status and the message (the headers of such a response are not
  recorded); a \<^verbatim>\<open>res.redirect(302, u)\<close> that returns is \<open>Redirect 302 u hs\<close>, with \<open>hs\<close> the
  headers that \<^verbatim>\<open>res.setHeader\<close> had set on the response. The value of a \<^verbatim>\<open>try\<close> body is
  the response it returned (\<open>Inr\<close>) or the error thrown in it (\<open>Inl\<close>); the value of the
  handler is the response it sent (\<open>Inr\<close>) or the error that left it (\<open>Inl\<close>).

  The raw-URL path, the same text in the outer \<^verbatim>\<open>try\<close> and in the inner one:
  \<^verbatim>\<open>
  const rawUrl = (recordMap?.block?.[blockId]?.value as any)?.properties?.source?.[0]?.[0]
  if (!rawUrl) return res.status(404).json({ error: 'File URL not found for block' })
  if (!isAllowedHost(rawUrl)) return res.status(400).json({ error: 'Unexpected redirect target' })
  return res.redirect(302, rawUrl)
  \<close>
\<close>

definition redirect_to_raw ::
  "url_parser \<Rightarrow> redirector \<Rightarrow> ExtendedRecordMap \<Rightarrow> string \<Rightarrow> (string \<times> string) list
     \<Rightarrow> string + response" where
  "redirect_to_raw parse redirect recordMap blockId hs =
     (let rawUrl = raw_source_of recordMap blockId in
      if \<not> truthy rawUrl then Inr (Json 404 ''File URL not found for block'')
      else if \<not> isAllowedHost parse (ToString rawUrl)
      then Inr (Json 400 ''Unexpected redirect target'')
      else case redirect rawUrl of
             None \<Rightarrow> Inr (Redirect 302 rawUrl hs)
           | Some thrown \<Rightarrow> Inl thrown)"

text \<open>
  The body of the outer \<^verbatim>\<open>try\<close>: the calls made, the headers set on the response, and
  the response returned or the error thrown.
\<close>

definition signed_try ::
  "page_fetcher \<Rightarrow> url_parser \<Rightarrow> redirector \<Rightarrow> string \<Rightarrow> string
     \<Rightarrow> upstream_call list \<times> (string \<times> string) list \<times> (string + response)" where
  "signed_try getPage parse redirect pageId blockId =
     (case getPage pageId True of
        Inl thrown \<Rightarrow> ([GetPage pageId True], [], Inl thrown)
      | Inr recordMap \<Rightarrow>
          (let freshUrl = signed_url_of recordMap blockId in
           if truthy freshUrl then
             (if \<not> isAllowedHost parse (ToString freshUrl)
              then ([GetPage pageId True], [], Inr (Json 400 ''Unexpected redirect target''))
              else
                (let hs = [(''Cache-Control'',
                            ''public, s-maxage=3300, stale-while-revalidate=86400'')]
                 in case redirect freshUrl of
                      None \<Rightarrow> ([GetPage pageId True], hs, Inr (Redirect 302 freshUrl hs))
                    | Some thrown \<Rightarrow> ([GetPage pageId True], hs, Inl thrown)))
           else ([GetPage pageId True], [], redirect_to_raw parse redirect recordMap blockId [])))"

text \<open>The body of the inner \<^verbatim>\<open>try\<close>, in the \<^verbatim>\<open>catch\<close> block of the outer one.\<close>

definition unsigned_try ::
  "page_fetcher \<Rightarrow> url_parser \<Rightarrow> redirector \<Rightarrow> string \<Rightarrow> string \<Rightarrow> (string \<times> string) list
     \<Rightarrow> upstream_call list \<times> (string + response)" where
  "unsigned_try getPage parse redirect pageId blockId hs =
     (case getPage pageId False of
        Inl thrown \<Rightarrow> ([GetPage pageId False], Inl thrown)
      | Inr recordMap \<Rightarrow>
          ([GetPage pageId False], redirect_to_raw parse redirect recordMap blockId hs))"

definition notionFileHandler ::
  "page_fetcher \<Rightarrow> url_parser \<Rightarrow> redirector \<Rightarrow> 'r NextApiRequest_scheme
     \<Rightarrow> upstream_call list \<times> (string + response)" where
  "notionFileHandler getPage parse redirect req =
     (if method req \<noteq> Some ''GET'' then ([], Inr (Json 405 ''Method not allowed''))
      else case nonempty_string (query req ''blockId'') of
        None \<Rightarrow> ([], Inr (Json 400 ''Missing blockId parameter''))
      | Some blockId \<Rightarrow>
      (case nonempty_string (query req ''pageId'') of
        None \<Rightarrow> ([], Inr (Json 400 ''Missing pageId parameter''))
      | Some pageId \<Rightarrow>
      (case signed_try getPage parse redirect pageId blockId of
        (calls, hs, Inr sent) \<Rightarrow> (calls, Inr sent)
      | (calls, hs, Inl err) \<Rightarrow>
          (case unsigned_try getPage parse redirect pageId blockId hs of
             (retry, Inr sent) \<Rightarrow> (calls @ retry, Inr sent)
           | (retry, Inl fallbackErr) \<Rightarrow>
               (calls @ retry, Inr (Json 502 ''Failed to fetch signed URL''))))))"

text \<open>
  The streaming proxy. \<^verbatim>\<open>getRawSourceUrl\<close> returns the raw source when it is a string,
  \<^verbatim>\<open>undefined\<close> otherwise.
\<close>

definition getRawSourceUrl :: "ExtendedRecordMap \<Rightarrow> string \<Rightarrow> string option" where
  "getRawSourceUrl recordMap blockId =
     (case raw_source_of recordMap blockId of
        Some (JString rawUrl) \<Rightarrow> Some rawUrl
      | _ \<Rightarrow> None)"

text \<open>
  \<^verbatim>\<open>resolvePdfUrl\<close>: the calls it made, and the URL it returns (\<open>Inr\<close>) or the error it
  throws (\<open>Inl\<close>). The \<^verbatim>\<open>try\<close> block covers the signed fetch only; what follows it runs
  when the block threw and when it fell through.
\<close>

definition resolve_unsigned :: "page_fetcher \<Rightarrow> string \<Rightarrow> string \<Rightarrow> string + string" where
  "resolve_unsigned getPage pageId blockId =
     (case getPage pageId False of
        Inl err \<Rightarrow> Inl err
      | Inr fallbackMap \<Rightarrow>
          (case getRawSourceUrl fallbackMap blockId of
             None \<Rightarrow> Inl ''File URL not found for block''
           | Some fallbackUrl \<Rightarrow>
               if fallbackUrl = [] then Inl ''File URL not found for block''
               else Inr fallbackUrl))"

definition resolvePdfUrl ::
  "page_fetcher \<Rightarrow> string \<Rightarrow> string \<Rightarrow> upstream_call list \<times> (string + string)" where
  "resolvePdfUrl getPage pageId blockId =
     (let retry = ([GetPage pageId True, GetPage pageId False],
                   resolve_unsigned getPage pageId blockId)
      in case getPage pageId True of
        Inl err \<Rightarrow> retry
      | Inr recordMap \<Rightarrow>
          (case signed_url_of recordMap blockId of
             Some (JString freshUrl) \<Rightarrow> ([GetPage pageId True], Inr freshUrl)
           | _ \<Rightarrow>
               (case getRawSourceUrl recordMap blockId of
                  None \<Rightarrow> retry
                | Some fallbackUrl \<Rightarrow>
                    if fallbackUrl = [] then retry
                    else ([GetPage pageId True], Inr fallbackUrl))))"

text \<open>
  The upstream response of \<^verbatim>\<open>node-fetch\<close>, as the handler reads it: the status, the
  header lookup \<^verbatim>\<open>headers.get\<close> and the body (\<open>None\<close> when \<^verbatim>\<open>upstreamRes.body\<close> is
  null). A body is a stream: it delivers its chunks and ends, or it emits \<^verbatim>\<open>'error'\<close>
  after it has delivered some of them (\<open>Fails n\<close>: after \<open>n\<close> chunks; the response headers go
  out with the first chunk, so \<open>Fails 0\<close> is an error before the headers are sent).
  \<^verbatim>\<open>fetch(url, { method, headers })\<close> is a parameter: the response (\<open>Inr\<close>) or the error it
  throws (\<open>Inl\<close>).
\<close>

datatype body_stream = Completes | Fails nat

record upstream_response =
  status :: nat
  headers_get :: "string \<Rightarrow> string option"
  body :: "body_stream option"

type_synonym fetcher = "string \<Rightarrow> string \<Rightarrow> (string \<times> string) list \<Rightarrow> string + upstream_response"

definition PASSTHROUGH_HEADERS :: "string list" where
  "PASSTHROUGH_HEADERS =
     [''accept-ranges'', ''cache-control'', ''content-length'', ''content-range'',
      ''content-type'', ''etag'', ''last-modified'']"

text \<open>The request headers forwarded upstream: each one only when it is a single string.\<close>

definition forward_header ::
  "'r NextApiRequest_scheme \<Rightarrow> string \<Rightarrow> (string \<times> string) list \<Rightarrow> (string \<times> string) list" where
  "forward_header req name hs =
     (case headers req name of
        Some (PString v) \<Rightarrow> AList.update name v hs
      | _ \<Rightarrow> hs)"

definition forwarded_headers :: "'r NextApiRequest_scheme \<Rightarrow> (string \<times> string) list" where
  "forwarded_headers req =
     forward_header req ''if-modified-since''
       (forward_header req ''if-none-match'' (forward_header req ''range'' []))"

text \<open>
  The response headers: each pass-through header that upstream sent with a non-empty
  value, then the default \<^verbatim>\<open>cache-control\<close> when none was set.
\<close>

definition pass_header ::
  "upstream_response \<Rightarrow> string \<Rightarrow> (string \<times> string) list \<Rightarrow> (string \<times> string) list" where
  "pass_header upstreamRes header hs =
     (case headers_get upstreamRes header of
        None \<Rightarrow> hs
      | Some v \<Rightarrow> if v = [] then hs else AList.update header v hs)"

definition response_headers :: "upstream_response \<Rightarrow> (string \<times> string) list" where
  "response_headers upstreamRes =
     (let hs = fold (pass_header upstreamRes) PASSTHROUGH_HEADERS [] in
      case map_of hs ''cache-control'' of
        None \<Rightarrow> AList.update ''cache-control''
                  ''public, s-maxage=300, stale-while-revalidate=3600'' hs
      | Some v \<Rightarrow> hs)"

text \<open>
  \<^verbatim>\<open>assetsPdfHandler\<close>. \<open>Proxied st hs b\<close> is the status and the headers set on the
  response and what became of its body: \<open>Ended\<close> by \<^verbatim>\<open>res.end()\<close> (a HEAD request, or no
  upstream body); otherwise the handler installs the \<^verbatim>\<open>'error'\<close> listener
  \<^verbatim>\<open>() => { if (!res.writableEnded) res.destroy() }\<close> on the upstream body and pipes it:
  \<open>Piped\<close> when the stream ends, \<open>Destroyed\<close> when it emits \<^verbatim>\<open>'error'\<close> (the response has
  not ended then, and the listener runs outside the \<^verbatim>\<open>try\<close> block).
\<close>

definition assetsPdfHandler ::
  "page_fetcher \<Rightarrow> fetcher \<Rightarrow> url_parser \<Rightarrow> 'r NextApiRequest_scheme
     \<Rightarrow> upstream_call list \<times> response" where
  "assetsPdfHandler getPage fetch parse req =
     (if method req \<noteq> Some ''GET'' \<and> method req \<noteq> Some ''HEAD''
      then ([], Json 405 ''Method not allowed'')
      else case nonempty_string (query req ''blockId'') of
        None \<Rightarrow> ([], Json 400 ''Missing blockId parameter'')
      | Some blockId \<Rightarrow>
      (case nonempty_string (query req ''pageId'') of
        None \<Rightarrow> ([], Json 400 ''Missing pageId parameter'')
      | Some pageId \<Rightarrow>
      (case resolvePdfUrl getPage pageId blockId of
        (calls, Inl err) \<Rightarrow> (calls, Json 502 ''Failed to proxy PDF'')
      | (calls, Inr upstreamUrl) \<Rightarrow>
          if \<not> isAllowedHost parse upstreamUrl
          then (calls, Json 400 ''Unexpected file host'')
          else
            (let m = (case method req of Some m \<Rightarrow> m | None \<Rightarrow> []);
                 hs = forwarded_headers req
             in case fetch upstreamUrl m hs of
                  Inl err \<Rightarrow> (calls @ [Fetch upstreamUrl m hs], Json 502 ''Failed to proxy PDF'')
                | Inr upstreamRes \<Rightarrow>
                    (calls @ [Fetch upstreamUrl m hs],
                     Proxied (status upstreamRes) (response_headers upstreamRes)
                       (if m = ''HEAD'' then Ended
                        else case body upstreamRes of
                               None \<Rightarrow> Ended
                             | Some Completes \<Rightarrow> Piped
                             | Some (Fails n) \<Rightarrow> Destroyed))))))"

section \<open>Sample inputs\<close>

text \<open>
  A record map with a PDF block, an image block and a video block whose signed URLs are
  on allow-listed hosts, and an entry whose value is the number 5. The raw source URL of
  the PDF block differs from its signed URL.
\<close>

definition sample_record_map :: ExtendedRecordMap where
  "sample_record_map =
     \<lparr>block =
        [(''b1'', \<lparr>value = Some \<lparr>type = Some ''pdf'',
                    properties_source_0_0 = Some (JString ''https://notion.so/f.pdf'')\<rparr>\<rparr>),
         (''b2'', \<lparr>value = Some \<lparr>type = Some ''image'', properties_source_0_0 = None\<rparr>\<rparr>),
         (''b3'', \<lparr>value = Some \<lparr>type = Some ''video'', properties_source_0_0 = None\<rparr>\<rparr>),
         (''b4'', \<lparr>value = Some \<lparr>type = Some ''pdf'', properties_source_0_0 = None\<rparr>\<rparr>)],
      signed_urls =
        Some [(''b1'', JString ''https://s3.amazonaws.com/x''),
              (''b2'', JString ''https://s3.amazonaws.com/x''),
              (''b3'', JString ''https://www.notion.so/f.pdf''),
              (''b4'', JOther True ''5'')]\<rparr>"

text \<open>The same record map with a signed URL on a host that is not allow-listed.\<close>

definition sample_foreign_map :: ExtendedRecordMap where
  "sample_foreign_map =
     sample_record_map\<lparr>signed_urls := Some [(''b1'', JString ''https://example.com/a.png'')]\<rparr>"

text \<open>The same record map without a signed-URL mapping.\<close>

definition sample_unsigned_map :: ExtendedRecordMap where
  "sample_unsigned_map = sample_record_map\<lparr>signed_urls := None\<rparr>"

text \<open>
  A record map as \<^verbatim>\<open>JSON.parse\<close> builds it from
  \<^verbatim>\<open>{"block": {"__proto__": {"value": {"type": "pdf"}}, "img": {"value": {"type": "image"}}},
   "signed_urls": {"__proto__": "https://s3.amazonaws.com/x"}}\<close>:
  both tables own the key \<^verbatim>\<open>__proto__\<close>.
\<close>

definition sample_proto_map :: ExtendedRecordMap where
  "sample_proto_map =
     \<lparr>block =
        [(''__proto__'', \<lparr>value = Some \<lparr>type = Some ''pdf'', properties_source_0_0 = None\<rparr>\<rparr>),
         (''img'', \<lparr>value = Some \<lparr>type = Some ''image'', properties_source_0_0 = None\<rparr>\<rparr>)],
      signed_urls = Some [(''__proto__'', JString ''https://s3.amazonaws.com/x'')]\<rparr>"

text \<open>A record map whose PDF block has a raw source URL that ends in a line feed.\<close>

definition sample_linefeed_map :: ExtendedRecordMap where
  "sample_linefeed_map =
     \<lparr>block =
        [(''b1'', \<lparr>value = Some \<lparr>type = Some ''pdf'',
                    properties_source_0_0 =
                      Some (JString (''https://s3.amazonaws.com/x'' @ [CHR 0x0A]))\<rparr>\<rparr>)],
      signed_urls = None\<rparr>"

text \<open>
  A content API that cannot sign on pages 1 and 7, serves page 2 signed and unsigned,
  serves the foreign record map as page 4 and the record map without signed URLs as
  page 5, and fails on every other page.
\<close>

definition sample_getPage :: page_fetcher where
  "sample_getPage pageId signFileUrls =
     (if pageId = ''page 1''
      then (if signFileUrls then Inl ''signing needs a token'' else Inr sample_record_map)
      else if pageId = ''page 2'' then Inr sample_record_map
      else if pageId = ''page 4'' then Inr sample_foreign_map
      else if pageId = ''page 5'' then Inr sample_unsigned_map
      else if pageId = ''page 7''
      then (if signFileUrls then Inl ''signing needs a token'' else Inr sample_linefeed_map)
      else Inl ''page not found'')"

text \<open>
  A redirect that returns for a string of printable ASCII characters and throws for a
  string with any other character and for a value that is not a string. The evaluations
  below use it on targets of these three kinds only: printable URLs, which the framework
  accepts, and a URL with a line feed and non-strings, which it refuses.
\<close>

definition sample_redirect :: redirector where
  "sample_redirect target =
     (case target of
        Some (JString s) \<Rightarrow>
          if list_all (\<lambda>c. 32 \<le> (of_char c :: nat) \<and> (of_char c :: nat) \<le> 126) s then None
          else Some ''Invalid character in header content''
      | _ \<Rightarrow> Some ''Invalid redirect arguments'')"

text \<open>A request for a block of a page, with a \<^verbatim>\<open>range\<close> header.\<close>

definition sample_request :: "string \<Rightarrow> string \<Rightarrow> string \<Rightarrow> NextApiRequest" where
  "sample_request m pageId blockId =
     \<lparr>method = Some m,
      query = (\<lambda>k. if k = ''blockId'' then Some (PString blockId)
                   else if k = ''pageId'' then Some (PString pageId) else None),
      headers = (\<lambda>k. if k = ''range'' then Some (PString ''bytes=0-99'') else None)\<rparr>"

text \<open>
  An upstream file server that answers every request with partial content, and one whose
  body stream fails before it has delivered a chunk.
\<close>

definition sample_fetch :: fetcher where
  "sample_fetch url m hs =
     Inr \<lparr>status = 206,
          headers_get = (\<lambda>h. if h = ''content-type'' then Some ''application/pdf'' else None),
          body = Some Completes\<rparr>"


text \<open>
  A store holding the sample record map: its block table, its signed-URL table and the
  record map object itself, at addresses 0, 1 and 2.
\<close>

definition sample_heap :: "unit heap" where
  "sample_heap =
     [BlockTable (block sample_record_map),
      UrlTable [(''b1'', JString ''https://s3.amazonaws.com/x''),
                (''b2'', JString ''https://s3.amazonaws.com/x''),
                (''b3'', JString ''https://www.notion.so/f.pdf''),
                (''b4'', JOther True ''5'')],
      RecordMapObject 0 (Some 1) ()]"

section \<open>Auxiliary notions of the proofs\<close>

text \<open>
  A table is settled under a rewriting \<open>f\<close> of values when its keys are distinct, none of
  them is \<^verbatim>\<open>__proto__\<close>, and every value is a string that \<open>f\<close> leaves as it is.
\<close>

definition settled :: "(string \<Rightarrow> string \<Rightarrow> string) \<Rightarrow> (string \<times> jsval) list \<Rightarrow> bool" where
  "settled f al =
     (distinct (map fst al) \<and> ''__proto__'' \<notin> fst ` set al
      \<and> (\<forall>(k, v) \<in> set al. \<exists>s. v = JString s \<and> f k s = s))"

section \<open>Properties of the classifiers\<close>

lemma endsWith_suffix: "endsWith s t = suffix t s"
proof
  assume "endsWith s t"
  then have "s = take (length s - length t) s @ t"
    by (metis append_take_drop_id endsWith_def)
  then show "suffix t s" by (metis suffixI)
next
  assume "suffix t s"
  then obtain p where "s = p @ t" by (auto simp: suffix_def)
  then show "endsWith s t" by (simp add: endsWith_def)
qed

lemma isAllowedHost_on_allow_listed_host:
  "isAllowedHost parse url = on_allow_listed_host parse url"
  by (cases "parse url")
     (auto simp: isAllowedHost_def on_allow_listed_host_def ALLOWED_HOSTS_def
        allow_listed_domains_def is_subdomain_of_def endsWith_suffix suffix_def)

lemma isAllowedHost_imp_isNotionHostedUrl:
  "parse [] = None \<Longrightarrow> isAllowedHost parse url \<Longrightarrow> isNotionHostedUrl parse url"
  by (cases "parse url")
     (auto simp: isAllowedHost_def isNotionHostedUrl_def ALLOWED_HOSTS_def endsWith_suffix suffix_def)

text \<open>
  Claim C1 (each classifier returns true exactly for the URLs whose hostname is an
  allow-listed domain or a subdomain of one). \<open>isAllowedHost\<close> does, as
  \<open>isAllowedHost_on_allow_listed_host\<close> shows. \<open>isNotionHostedUrl\<close> does not: it tests
  \<^verbatim>\<open>hostname.endsWith('amazonaws.com')\<close> with no dot before the domain, so it accepts
  \<^verbatim>\<open>https://evilamazonaws.com/x\<close>, whose hostname \<^verbatim>\<open>evilamazonaws.com\<close> is neither
  \<^verbatim>\<open>amazonaws.com\<close> nor a subdomain of it.
\<close>

theorem isNotionHostedUrl_accepts_foreign_host:
  "isNotionHostedUrl sample_hostname ''https://evilamazonaws.com/x''
   \<and> \<not> on_allow_listed_host sample_hostname ''https://evilamazonaws.com/x''"
proof -
  have "\<not> isAllowedHost sample_hostname ''https://evilamazonaws.com/x''"
    by (simp add: isAllowedHost_def sample_hostname_def ALLOWED_HOSTS_def endsWith_def)
  moreover have "isNotionHostedUrl sample_hostname ''https://evilamazonaws.com/x''"
    by (simp add: isNotionHostedUrl_def sample_hostname_def endsWith_def)
  ultimately show ?thesis by (simp add: isAllowedHost_on_allow_listed_host)
qed

text \<open>
  Claim C9 (the two classifiers return the same boolean for every input string). They
  differ at \<^verbatim>\<open>https://evilamazonaws.com/x\<close>: \<open>isNotionHostedUrl\<close> accepts it through the
  suffix test without the dot, \<open>isAllowedHost\<close> rejects it. In the other direction the
  classifiers agree: whatever \<open>isAllowedHost\<close> accepts, \<open>isNotionHostedUrl\<close> accepts
  (\<open>isAllowedHost_imp_isNotionHostedUrl\<close>).
\<close>

theorem classifiers_disagree:
  "isNotionHostedUrl sample_hostname ''https://evilamazonaws.com/x''
     \<noteq> isAllowedHost sample_hostname ''https://evilamazonaws.com/x''"
  by (simp add: isAllowedHost_def isNotionHostedUrl_def sample_hostname_def ALLOWED_HOSTS_def endsWith_def)

section \<open>Properties of the rewriters\<close>

lemma update_absent_key: "k \<notin> fst ` set al \<Longrightarrow> AList.update k v al = al @ [(k, v)]"
  by (induction al) auto

lemma update_set_subset: "set (AList.update k v al) \<subseteq> insert (k, v) (set al)"
  by (induction al) auto

lemma assign_string_proto:
  "''__proto__'' \<notin> fst ` set obj \<Longrightarrow> assign_string ''__proto__'' s obj = obj"
  by (simp add: assign_string_def map_of_eq_None_iff)

lemma assign_string_other:
  "k \<noteq> ''__proto__'' \<Longrightarrow> assign_string k s obj = AList.update k (JString s) obj"
  by (simp add: assign_string_def)

lemma assign_string_keeps_proto_out:
  "''__proto__'' \<notin> fst ` set obj \<Longrightarrow> ''__proto__'' \<notin> fst ` set (assign_string k s obj)"
  by (cases "k = ''__proto__''") (simp_all add: assign_string_proto assign_string_other dom_update)

lemma fold_step_lookup:
  assumes other: "\<And>k t s acc. step (k, JOther t s) acc = acc"
    and str: "\<And>k s acc. step (k, JString s) acc = assign_string k (f k s) acc"
  shows "distinct (map fst xs) \<Longrightarrow> ''__proto__'' \<notin> fst ` set acc \<Longrightarrow>
     map_of (fold step xs acc) k =
       (case map_of xs k of
          Some (JString s) \<Rightarrow> if k = ''__proto__'' then map_of acc k else Some (JString (f k s))
        | _ \<Rightarrow> map_of acc k)"
proof (induction xs arbitrary: acc)
  case Nil
  then show ?case by simp
next
  case (Cons x xs)
  obtain k' v where x: "x = (k', v)" by (cases x)
  from Cons.prems x have notin: "k' \<notin> fst ` set xs" and dist: "distinct (map fst xs)"
    by auto
  from notin have none: "map_of xs k' = None"
    by (simp add: map_of_eq_None_iff)
  show ?case
  proof (cases v)
    case (JString s)
    let ?acc = "assign_string k' (f k' s) acc"
    have out: "''__proto__'' \<notin> fst ` set ?acc"
      using Cons.prems(2) by (rule assign_string_keeps_proto_out)
    have acc: "map_of ?acc k = (if k = k' \<and> k' \<noteq> ''__proto__'' then Some (JString (f k' s))
                                else map_of acc k)"
      using Cons.prems(2)
      by (cases "k' = ''__proto__''")
         (simp_all add: assign_string_proto assign_string_other update_conv')
    show ?thesis
      using Cons.IH [OF dist out] x JString none acc
      by (auto simp: str split: option.splits jsval.splits)
  next
    case (JOther t s)
    show ?thesis
      using Cons.IH [OF dist Cons.prems(2)] x JOther none
      by (auto simp: other split: option.splits jsval.splits)
  qed
qed

lemma settled_fold:
  fixes f :: "string \<Rightarrow> string \<Rightarrow> string"
  assumes other: "\<And>k t s acc. step (k, JOther t s) acc = acc"
    and str: "\<And>k s acc. step (k, JString s) acc = assign_string k (f k s) acc"
    and idem: "\<And>k s. f k (f k s) = f k s"
  shows "settled f acc \<Longrightarrow> settled f (fold step xs acc)"
proof (induction xs arbitrary: acc)
  case Nil
  then show ?case by simp
next
  case (Cons x xs)
  obtain k v where x: "x = (k, v)" by (cases x)
  have "settled f (step x acc)"
  proof (cases v)
    case (JString s)
    show ?thesis
    proof (cases "k = ''__proto__''")
      case True
      with Cons.prems show ?thesis
        by (simp add: x JString str settled_def assign_string_proto)
    next
      case False
      have "set (AList.update k (JString (f k s)) acc) \<subseteq> insert (k, JString (f k s)) (set acc)"
        by (rule update_set_subset)
      with Cons.prems False show ?thesis
        unfolding x JString str settled_def assign_string_other [OF False]
        by (auto simp: distinct_update idem dom_update)
    qed
  next
    case (JOther t s)
    with Cons.prems show ?thesis by (simp add: x other)
  qed
  then show ?case using Cons.IH by simp
qed

lemma fold_settled_append:
  assumes str: "\<And>k s acc. step (k, JString s) acc = assign_string k (f k s) acc"
  shows "distinct (map fst (acc @ xs)) \<Longrightarrow> ''__proto__'' \<notin> fst ` set xs \<Longrightarrow>
     \<forall>(k, v) \<in> set xs. \<exists>s. v = JString s \<and> f k s = s
     \<Longrightarrow> fold step xs acc = acc @ xs"
proof (induction xs arbitrary: acc)
  case Nil
  then show ?case by simp
next
  case (Cons x xs)
  obtain k v where x: "x = (k, v)" by (cases x)
  from Cons.prems(3) x obtain s where v: "v = JString s" and fixed: "f k s = s" by auto
  from Cons.prems(1) x have "k \<notin> fst ` set acc" by auto
  moreover from Cons.prems(2) x have "k \<noteq> ''__proto__''" by auto
  ultimately have step: "step x acc = acc @ [x]"
    by (simp add: x v str fixed update_absent_key assign_string_other)
  from Cons.prems have "fold step xs (acc @ [x]) = (acc @ [x]) @ xs"
    by (intro Cons.IH) auto
  with step show ?case by simp
qed

lemma fold_step_idem:
  fixes f :: "string \<Rightarrow> string \<Rightarrow> string"
  assumes other: "\<And>k t s acc. step (k, JOther t s) acc = acc"
    and str: "\<And>k s acc. step (k, JString s) acc = assign_string k (f k s) acc"
    and idem: "\<And>k s. f k (f k s) = f k s"
  shows "fold step (fold step xs []) [] = fold step xs []"
proof -
  have "settled f (fold step xs [])"
    by (rule settled_fold [where step = step and f = f, OF other str idem])
       (simp add: settled_def)
  then show ?thesis
    using fold_settled_append [of step f "[]" "fold step xs []", OF str]
    by (simp add: settled_def)
qed

lemma pdf_step_other: "pdf_step parse m p (k, JOther t s) acc = acc"
  by simp

lemma pdf_step_string:
  "pdf_step parse m p (k, JString s) acc =
     assign_string k (if blockType_of m k = Some ''pdf'' \<and> isNotionHostedUrl parse s
                      then pdf_proxy_path p k else s) acc"
  by simp

lemma file_step_other: "file_step parse m p (k, JOther t s) acc = acc"
  by simp

lemma file_step_string:
  "file_step parse m p (k, JString s) acc =
     assign_string k (if is_file_block_type (blockType_of m k) \<and> isNotionHostedUrl parse s
                      then file_proxy_path p k else s) acc"
  by simp

lemma pdf_lookup:
  "signed_urls m = Some urls \<Longrightarrow> distinct (map fst urls) \<Longrightarrow>
   signed_url_entry (rewriteNotionPdfUrls parse m p) k =
     (case map_of urls k of
        Some (JString s) \<Rightarrow>
          if k = ''__proto__'' then None
          else Some (JString (if blockType_of m k = Some ''pdf'' \<and> isNotionHostedUrl parse s
                              then pdf_proxy_path p k else s))
      | _ \<Rightarrow> None)"
  using fold_step_lookup [where step = "pdf_step parse m p" and acc = "[]" and xs = urls and k = k,
      OF pdf_step_other pdf_step_string]
  by (simp add: rewriteNotionPdfUrls_def signed_url_entry_def split: option.splits jsval.splits)

lemma file_lookup:
  "signed_urls m = Some urls \<Longrightarrow> distinct (map fst urls) \<Longrightarrow>
   signed_url_entry (rewriteNotionFileUrls parse m p) k =
     (case map_of urls k of
        Some (JString s) \<Rightarrow>
          if k = ''__proto__'' then None
          else Some (JString (if is_file_block_type (blockType_of m k) \<and> isNotionHostedUrl parse s
                              then file_proxy_path p k else s))
      | _ \<Rightarrow> None)"
  using fold_step_lookup [where step = "file_step parse m p" and acc = "[]" and xs = urls and k = k,
      OF file_step_other file_step_string]
  by (simp add: rewriteNotionFileUrls_def signed_url_entry_def split: option.splits jsval.splits)

lemma is_file_block_type_iff:
  "is_file_block_type bt = (\<exists>t. bt = Some t \<and> t \<in> {''pdf'', ''file'', ''audio'', ''video''})"
  by (cases bt) (auto simp: is_file_block_type_def FILE_BLOCK_TYPES_def)

text \<open>
  Claim C4 as stated speaks of every entry of the signed-URL mapping. The rewriters build
  their output with \<^verbatim>\<open>rewritten[blockId] = ...\<close> on a plain object, and for the key
  \<^verbatim>\<open>__proto__\<close> that assignment stores nothing: a mapping that owns this key, for a
  \<^verbatim>\<open>pdf\<close> block and with a signed URL that passes the classifier, comes back from both
  rewriters with no entry at all.
\<close>

theorem proto_entry_not_rewritten:
  "signed_url_entry sample_proto_map ''__proto__'' = Some (JString ''https://s3.amazonaws.com/x'')
   \<and> blockType_of sample_proto_map ''__proto__'' = Some ''pdf''
   \<and> isNotionHostedUrl sample_hostname ''https://s3.amazonaws.com/x''
   \<and> signed_urls (rewriteNotionPdfUrls sample_hostname sample_proto_map ''page 1'') = Some []
   \<and> signed_urls (rewriteNotionFileUrls sample_hostname sample_proto_map ''page 1'') = Some []"
  by (simp add: signed_url_entry_def rewriteNotionPdfUrls_def rewriteNotionFileUrls_def
      sample_proto_map_def blockType_of_def block_value_def is_file_block_type_def
      FILE_BLOCK_TYPES_def isNotionHostedUrl_def sample_hostname_def endsWith_def
      assign_string_def)

text \<open>
  Claim C4, amended. Let the record map have a signed-URL table (an object, so its keys
  are distinct). For every entry whose key is not \<^verbatim>\<open>__proto__\<close> and whose value is a
  string that passes the classifier: when the block's type is \<^verbatim>\<open>pdf\<close>, the legacy
  rewriter's output entry is \<^verbatim>\<open>/assets-pdf/<encoded pageId>/<encoded blockId>\<close>; when the
  block's type is one of \<^verbatim>\<open>pdf\<close>, \<^verbatim>\<open>file\<close>, \<^verbatim>\<open>audio\<close>, \<^verbatim>\<open>video\<close>, the general rewriter's
  output entry is \<^verbatim>\<open>/api/notion-file?blockId=<encoded blockId>&pageId=<encoded pageId>\<close>.
  In particular the legacy rewriter maps a \<^verbatim>\<open>pdf\<close> block with signed URL
  \<^verbatim>\<open>https://s3.amazonaws.com/x\<close> (hostname \<^verbatim>\<open>s3.amazonaws.com\<close>) to the \<^verbatim>\<open>/assets-pdf\<close> path.
\<close>

theorem rewritten_entry_is_proxy_path:
  assumes "signed_urls m = Some urls" and "distinct (map fst urls)"
    and "blockId \<noteq> ''__proto__''"
  shows
    "(map_of urls blockId = Some (JString signedUrl) \<and> isNotionHostedUrl parse signedUrl
        \<and> blockType_of m blockId = Some ''pdf''
      \<longrightarrow> signed_url_entry (rewriteNotionPdfUrls parse m pageId) blockId =
            Some (JString (''/assets-pdf/'' @ encodeURIComponent pageId @ ''/''
                    @ encodeURIComponent blockId)))
     \<and> (map_of urls blockId = Some (JString signedUrl) \<and> isNotionHostedUrl parse signedUrl
        \<and> blockType_of m blockId = Some t \<and> t \<in> {''pdf'', ''file'', ''audio'', ''video''}
      \<longrightarrow> signed_url_entry (rewriteNotionFileUrls parse m pageId) blockId =
            Some (JString (''/api/notion-file?blockId='' @ encodeURIComponent blockId
                    @ ''&pageId='' @ encodeURIComponent pageId)))
     \<and> (parse ''https://s3.amazonaws.com/x'' = Some ''s3.amazonaws.com''
        \<and> map_of urls blockId = Some (JString ''https://s3.amazonaws.com/x'')
        \<and> blockType_of m blockId = Some ''pdf''
      \<longrightarrow> signed_url_entry (rewriteNotionPdfUrls parse m pageId) blockId =
            Some (JString (''/assets-pdf/'' @ encodeURIComponent pageId @ ''/''
                    @ encodeURIComponent blockId)))"
proof -
  have s3: "isNotionHostedUrl parse ''https://s3.amazonaws.com/x''"
    if "parse ''https://s3.amazonaws.com/x'' = Some ''s3.amazonaws.com''"
    using that by (simp add: isNotionHostedUrl_def endsWith_def)
  show ?thesis
    using s3 assms(3)
    by (auto simp: pdf_lookup [OF assms(1,2)] file_lookup [OF assms(1,2)] is_file_block_type_iff
        pdf_proxy_path_def file_proxy_path_def)
qed

theorem rewritten_entry_is_proxy_path_witness:
  "signed_urls sample_record_map \<noteq> None
   \<and> signed_url_entry sample_record_map ''b1'' = Some (JString ''https://s3.amazonaws.com/x'')
   \<and> blockType_of sample_record_map ''b1'' = Some ''pdf''
   \<and> signed_url_entry (rewriteNotionPdfUrls sample_hostname sample_record_map ''page 1'') ''b1''
       = Some (JString ''/assets-pdf/page%201/b1'')
   \<and> signed_url_entry (rewriteNotionFileUrls sample_hostname sample_record_map ''page 1'') ''b1''
       = Some (JString ''/api/notion-file?blockId=b1&pageId=page%201'')"
proof -
  have enc: "encodeURIComponent ''page 1'' = ''page%201''" "encodeURIComponent ''b1'' = ''b1''"
    by (simp_all add: encodeURIComponent_def encode_byte_def uri_unreserved_def hex_digit_def)
  have urls: "signed_urls sample_record_map =
      Some [(''b1'', JString ''https://s3.amazonaws.com/x''),
            (''b2'', JString ''https://s3.amazonaws.com/x''),
            (''b3'', JString ''https://www.notion.so/f.pdf''),
            (''b4'', JOther True ''5'')]"
    by (simp add: sample_record_map_def)
  have key: "''b1'' \<noteq> ''__proto__''" by simp
  have ty: "blockType_of sample_record_map ''b1'' = Some ''pdf''"
    by (simp add: blockType_of_def block_value_def sample_record_map_def)
  have hosted: "isNotionHostedUrl sample_hostname ''https://s3.amazonaws.com/x''"
    by (simp add: isNotionHostedUrl_def sample_hostname_def endsWith_def)
  have dist: "distinct (map fst [(''b1'', JString ''https://s3.amazonaws.com/x''),
            (''b2'', JString ''https://s3.amazonaws.com/x''),
            (''b3'', JString ''https://www.notion.so/f.pdf''),
            (''b4'', JOther True ''5'')])"
    by simp
  show ?thesis
    using rewritten_entry_is_proxy_path [OF urls dist key, of "''https://s3.amazonaws.com/x''"
        sample_hostname "''page 1''" "''pdf''"] ty hosted enc
    by (simp add: signed_url_entry_def urls)
qed

text \<open>
  Claim C5 as stated says that an entry whose value is not a string is returned
  byte-identical. Both rewriters skip such an entry (\<^verbatim>\<open>continue\<close>) before anything is
  assigned to \<^verbatim>\<open>rewritten\<close>, so the output has no entry for its key: here the entry of
  \<^verbatim>\<open>b4\<close>, whose value is the number 5, is absent from both outputs.
\<close>

theorem non_string_entry_dropped:
  "signed_url_entry sample_record_map ''b4'' = Some (JOther True ''5'')
   \<and> signed_url_entry (rewriteNotionPdfUrls sample_hostname sample_record_map ''page 1'') ''b4'' = None
   \<and> signed_url_entry (rewriteNotionFileUrls sample_hostname sample_record_map ''page 1'') ''b4'' = None"
  by (simp add: signed_url_entry_def rewriteNotionPdfUrls_def rewriteNotionFileUrls_def
      sample_record_map_def blockType_of_def block_value_def is_file_block_type_def
      FILE_BLOCK_TYPES_def isNotionHostedUrl_def sample_hostname_def endsWith_def
      assign_string_def)

text \<open>
  Claim C5, amended. Let the record map have a signed-URL table. An entry whose value is
  a string, whose key is not \<^verbatim>\<open>__proto__\<close> and whose block type is not in the rewriter's
  target set (\<^verbatim>\<open>pdf\<close> for the legacy rewriter; \<^verbatim>\<open>pdf\<close>, \<^verbatim>\<open>file\<close>, \<^verbatim>\<open>audio\<close>, \<^verbatim>\<open>video\<close> for
  the general one) is returned identical in the output table. An entry whose value is not
  a string is absent from the output table, whatever its key.
\<close>

theorem unmatched_entries_pass_through:
  assumes "signed_urls m = Some urls" and "distinct (map fst urls)"
  shows
    "(map_of urls blockId = Some (JString signedUrl) \<and> blockId \<noteq> ''__proto__''
        \<and> blockType_of m blockId \<noteq> Some ''pdf''
      \<longrightarrow> signed_url_entry (rewriteNotionPdfUrls parse m pageId) blockId = Some (JString signedUrl))
     \<and> (map_of urls blockId = Some (JString signedUrl) \<and> blockId \<noteq> ''__proto__''
        \<and> (\<forall>t. blockType_of m blockId = Some t
               \<longrightarrow> t \<notin> {''pdf'', ''file'', ''audio'', ''video''})
      \<longrightarrow> signed_url_entry (rewriteNotionFileUrls parse m pageId) blockId = Some (JString signedUrl))
     \<and> (map_of urls blockId = Some (JOther truth str)
      \<longrightarrow> signed_url_entry (rewriteNotionPdfUrls parse m pageId) blockId = None
        \<and> signed_url_entry (rewriteNotionFileUrls parse m pageId) blockId = None)"
  by (auto simp: pdf_lookup [OF assms] file_lookup [OF assms] is_file_block_type_iff)

theorem unmatched_entries_pass_through_witness:
  "signed_urls sample_record_map \<noteq> None
   \<and> signed_url_entry sample_record_map ''b2'' = Some (JString ''https://s3.amazonaws.com/x'')
   \<and> blockType_of sample_record_map ''b2'' = Some ''image''
   \<and> signed_url_entry (rewriteNotionPdfUrls sample_hostname sample_record_map ''page 1'') ''b2''
       = Some (JString ''https://s3.amazonaws.com/x'')
   \<and> signed_url_entry (rewriteNotionFileUrls sample_hostname sample_record_map ''page 1'') ''b2''
       = Some (JString ''https://s3.amazonaws.com/x'')"
proof -
  have urls: "signed_urls sample_record_map =
      Some [(''b1'', JString ''https://s3.amazonaws.com/x''),
            (''b2'', JString ''https://s3.amazonaws.com/x''),
            (''b3'', JString ''https://www.notion.so/f.pdf''),
            (''b4'', JOther True ''5'')]"
    by (simp add: sample_record_map_def)
  have ty: "blockType_of sample_record_map ''b2'' = Some ''image''"
    by (simp add: blockType_of_def block_value_def sample_record_map_def)
  show ?thesis
    using unmatched_entries_pass_through [OF urls, of "''b2''" "''https://s3.amazonaws.com/x''"
        sample_hostname "''page 1''"] ty
    by (simp add: signed_url_entry_def urls)
qed

lemma blockType_of_signed_urls_update [simp]:
  "blockType_of (m\<lparr>signed_urls := x\<rparr>) k = blockType_of m k"
  by (simp add: blockType_of_def block_value_def)

lemma pdf_step_signed_urls_update:
  "pdf_step parse (m\<lparr>signed_urls := x\<rparr>) p = pdf_step parse m p"
proof (rule ext, rule ext)
  fix kv :: "string \<times> jsval" and acc
  obtain k v where "kv = (k, v)" by (cases kv)
  then show "pdf_step parse (m\<lparr>signed_urls := x\<rparr>) p kv acc = pdf_step parse m p kv acc"
    by (cases v) simp_all
qed

lemma file_step_signed_urls_update:
  "file_step parse (m\<lparr>signed_urls := x\<rparr>) p = file_step parse m p"
proof (rule ext, rule ext)
  fix kv :: "string \<times> jsval" and acc
  obtain k v where "kv = (k, v)" by (cases kv)
  then show "file_step parse (m\<lparr>signed_urls := x\<rparr>) p kv acc = file_step parse m p kv acc"
    by (cases v) simp_all
qed

lemma relative_path_not_hosted:
  "\<forall>s. parse (CHR ''/'' # s) = None \<Longrightarrow> \<not> isNotionHostedUrl parse (CHR ''/'' # s)"
  by (simp add: isNotionHostedUrl_def)

lemma pdf_fold_idem:
  assumes "\<forall>s. parse (CHR ''/'' # s) = None"
  shows "fold (pdf_step parse m p) (fold (pdf_step parse m p) urls []) []
         = fold (pdf_step parse m p) urls []"
proof (rule fold_step_idem [OF pdf_step_other pdf_step_string])
  fix k s
  have path: "\<not> isNotionHostedUrl parse (pdf_proxy_path p k)"
    using relative_path_not_hosted [OF assms] by (simp add: pdf_proxy_path_def)
  show "(if blockType_of m k = Some ''pdf'' \<and>
         isNotionHostedUrl parse
          (if blockType_of m k = Some ''pdf'' \<and> isNotionHostedUrl parse s
           then pdf_proxy_path p k else s)
      then pdf_proxy_path p k
      else if blockType_of m k = Some ''pdf'' \<and> isNotionHostedUrl parse s
           then pdf_proxy_path p k else s) =
     (if blockType_of m k = Some ''pdf'' \<and> isNotionHostedUrl parse s
      then pdf_proxy_path p k else s)"
    using path by auto
qed

lemma file_fold_idem:
  assumes "\<forall>s. parse (CHR ''/'' # s) = None"
  shows "fold (file_step parse m p) (fold (file_step parse m p) urls []) []
         = fold (file_step parse m p) urls []"
proof (rule fold_step_idem [OF file_step_other file_step_string])
  fix k s
  have path: "\<not> isNotionHostedUrl parse (file_proxy_path p k)"
    using relative_path_not_hosted [OF assms] by (simp add: file_proxy_path_def)
  show "(if is_file_block_type (blockType_of m k) \<and>
         isNotionHostedUrl parse
          (if is_file_block_type (blockType_of m k) \<and> isNotionHostedUrl parse s
           then file_proxy_path p k else s)
      then file_proxy_path p k
      else if is_file_block_type (blockType_of m k) \<and> isNotionHostedUrl parse s
           then file_proxy_path p k else s) =
     (if is_file_block_type (blockType_of m k) \<and> isNotionHostedUrl parse s
      then file_proxy_path p k else s)"
    using path by auto
qed

text \<open>
  Claim C10. The platform's URL constructor, called with no base, throws on a string that
  starts with \<^verbatim>\<open>/\<close>. Then for every record map and page identifier each rewriter,
  applied to its own output, returns that output; and no proxy path passes the classifier.
\<close>

theorem rewriters_idempotent:
  assumes "\<forall>s. parse (CHR ''/'' # s) = None"
  shows "rewriteNotionPdfUrls parse (rewriteNotionPdfUrls parse m p) p = rewriteNotionPdfUrls parse m p
     \<and> rewriteNotionFileUrls parse (rewriteNotionFileUrls parse m p) p = rewriteNotionFileUrls parse m p
     \<and> \<not> isNotionHostedUrl parse (pdf_proxy_path p k)
     \<and> \<not> isNotionHostedUrl parse (file_proxy_path p k)"
proof (intro conjI)
  show "rewriteNotionPdfUrls parse (rewriteNotionPdfUrls parse m p) p = rewriteNotionPdfUrls parse m p"
    by (cases "signed_urls m")
       (simp_all add: rewriteNotionPdfUrls_def pdf_step_signed_urls_update pdf_fold_idem [OF assms])
  show "rewriteNotionFileUrls parse (rewriteNotionFileUrls parse m p) p = rewriteNotionFileUrls parse m p"
    by (cases "signed_urls m")
       (simp_all add: rewriteNotionFileUrls_def file_step_signed_urls_update file_fold_idem [OF assms])
  show "\<not> isNotionHostedUrl parse (pdf_proxy_path p k)"
    using relative_path_not_hosted [OF assms] by (simp add: pdf_proxy_path_def)
  show "\<not> isNotionHostedUrl parse (file_proxy_path p k)"
    using relative_path_not_hosted [OF assms] by (simp add: file_proxy_path_def)
qed

theorem rewriters_idempotent_witness:
  "(\<forall>s. sample_hostname (CHR ''/'' # s) = None)
   \<and> signed_url_entry (rewriteNotionPdfUrls sample_hostname sample_record_map ''page 1'') ''b1''
       = Some (JString ''/assets-pdf/page%201/b1'')
   \<and> rewriteNotionPdfUrls sample_hostname
        (rewriteNotionPdfUrls sample_hostname sample_record_map ''page 1'') ''page 1''
       = rewriteNotionPdfUrls sample_hostname sample_record_map ''page 1''
   \<and> rewriteNotionFileUrls sample_hostname
        (rewriteNotionFileUrls sample_hostname sample_record_map ''page 1'') ''page 1''
       = rewriteNotionFileUrls sample_hostname sample_record_map ''page 1''"
proof -
  have rel: "\<forall>s. sample_hostname (CHR ''/'' # s) = None"
    by (simp add: sample_hostname_def)
  have enc: "encodeURIComponent ''page 1'' = ''page%201''" "encodeURIComponent ''b1'' = ''b1''"
    by (simp_all add: encodeURIComponent_def encode_byte_def uri_unreserved_def hex_digit_def)
  have b1: "signed_url_entry (rewriteNotionPdfUrls sample_hostname sample_record_map ''page 1'') ''b1''
       = Some (JString ''/assets-pdf/page%201/b1'')"
    by (simp add: signed_url_entry_def rewriteNotionPdfUrls_def sample_record_map_def
        blockType_of_def block_value_def isNotionHostedUrl_def sample_hostname_def endsWith_def
        pdf_proxy_path_def enc assign_string_def)
  show ?thesis
    using rewriters_idempotent [of sample_hostname sample_record_map "''page 1''", OF rel] rel b1
    by simp
qed

section \<open>Properties of the rewriters on the store\<close>

lemma heap_read_append:
  "heap_read h a = Some x \<Longrightarrow> heap_read (h @ h') a = Some x"
  by (auto simp: heap_read_def nth_append split: if_splits)

lemma record_map_atE:
  assumes "record_map_at h r = Some rm"
  obtains b s rest where "heap_read h r = Some (RecordMapObject b s rest)"
    and "heap_read h b = Some (BlockTable (block rm))"
    and "ExtendedRecordMap.more rm = rest"
    and "case s of None \<Rightarrow> signed_urls rm = None
         | Some sa \<Rightarrow> heap_read h sa = Some (UrlTable (the (signed_urls rm))) \<and> signed_urls rm \<noteq> None"
  using assms unfolding record_map_at_def
  by (auto split: option.splits heap_object.splits)

lemma record_map_at_append:
  assumes "record_map_at h a = Some rm"
  shows "record_map_at (h @ h') a = Some rm"
proof -
  from assms obtain b s rest where obj: "heap_read h a = Some (RecordMapObject b s rest)"
    and blocks: "heap_read h b = Some (BlockTable (block rm))"
    and rest: "ExtendedRecordMap.more rm = rest"
    and urls: "case s of None \<Rightarrow> signed_urls rm = None
         | Some sa \<Rightarrow> heap_read h sa = Some (UrlTable (the (signed_urls rm))) \<and> signed_urls rm \<noteq> None"
    by (rule record_map_atE)
  show ?thesis
  proof (cases s)
    case None
    with urls rest show ?thesis
      by (simp add: record_map_at_def heap_read_append [OF obj] heap_read_append [OF blocks])
  next
    case (Some sa)
    with urls have tab: "heap_read h sa = Some (UrlTable (the (signed_urls rm)))"
      and some: "signed_urls rm \<noteq> None" by simp_all
    from some rest Some show ?thesis
      by (auto simp: record_map_at_def heap_read_append [OF obj] heap_read_append [OF blocks]
          heap_read_append [OF tab])
  qed
qed

lemma step_in_heap_fresh:
  assumes "record_map_at h r = Some rm"
  shows "step_in_heap step r (length h) kv (h @ [UrlTable acc]) = h @ [UrlTable (step rm kv acc)]"
  using record_map_at_append [OF assms, of "[UrlTable acc]"]
  by (simp add: step_in_heap_def heap_read_def)

lemma fold_step_in_heap:
  assumes "record_map_at h r = Some rm"
  shows "fold (step_in_heap step r (length h)) urls (h @ [UrlTable acc])
         = h @ [UrlTable (fold (step rm) urls acc)]"
  by (induction urls arbitrary: acc) (simp_all add: step_in_heap_fresh [OF assms])

lemma rewrite_in_heap_correct:
  assumes rm: "record_map_at h r = Some rm"
  shows "\<exists>h' r'. rewrite_in_heap step h r = Some (h', r')
           \<and> prefix h h'
           \<and> record_map_at h' r = Some rm
           \<and> record_map_at h' r' =
               Some (case signed_urls rm of
                       None \<Rightarrow> rm
                     | Some urls \<Rightarrow> rm\<lparr>signed_urls := Some (fold (step rm) urls [])\<rparr>)
           \<and> (signed_urls rm = None \<longrightarrow> h' = h \<and> r' = r)"
proof (cases "signed_urls rm")
  case None
  with rm show ?thesis by (simp add: rewrite_in_heap_def)
next
  case (Some urls)
  from rm obtain b s rest where obj: "heap_read h r = Some (RecordMapObject b s rest)"
    and blocks: "heap_read h b = Some (BlockTable (block rm))"
    and rest: "ExtendedRecordMap.more rm = rest"
    by (rule record_map_atE)
  let ?R = "fold (step rm) urls []"
  let ?h2 = "h @ [UrlTable ?R]"
  let ?h' = "?h2 @ [RecordMapObject b (Some (length h)) rest]"
  have loop: "fold (step_in_heap step r (length h)) urls (h @ [UrlTable []]) = ?h2"
    by (rule fold_step_in_heap [OF rm])
  have obj2: "heap_read ?h2 r = Some (RecordMapObject b s rest)"
    by (rule heap_read_append [OF obj])
  have res: "rewrite_in_heap step h r = Some (?h', Suc (length h))"
    using rm Some loop obj2 by (simp add: rewrite_in_heap_def Let_def)
  have pre: "prefix h ?h'" by simp
  have same: "record_map_at ?h' r = Some rm"
    using record_map_at_append [OF rm, of "[UrlTable ?R, RecordMapObject b (Some (length h)) rest]"]
    by simp
  have blocks': "heap_read ?h' b = Some (BlockTable (block rm))"
    using heap_read_append [OF blocks, of "[UrlTable ?R, RecordMapObject b (Some (length h)) rest]"]
    by simp
  have new: "record_map_at ?h' (Suc (length h)) = Some (rm\<lparr>signed_urls := Some ?R\<rparr>)"
    using blocks' rest
    by (simp add: record_map_at_def heap_read_def nth_append)
  show ?thesis using res pre same new Some by simp
qed

text \<open>
  Claim C6. Let the argument be the address of a record map in the store. Each rewriter
  returns; the store it leaves extends the store it was given (\<open>prefix\<close>: every object
  that existed before the call is unchanged, the record map, its block table and its
  signed-URL table among them), so the argument denotes the same record map after the
  call; the result denotes the record map that the rewriter computes; and when the record
  map has no signed-URL table, the store is unchanged and the result is the argument
  itself.
\<close>

theorem rewriters_do_not_mutate_input:
  assumes "record_map_at h recordMap = Some rm"
  shows "(\<exists>h' result. rewriteNotionPdfUrls_heap parse h recordMap pageId = Some (h', result)
            \<and> prefix h h'
            \<and> record_map_at h' recordMap = Some rm
            \<and> record_map_at h' result = Some (rewriteNotionPdfUrls parse rm pageId)
            \<and> (signed_urls rm = None \<longrightarrow> h' = h \<and> result = recordMap))
       \<and> (\<exists>h' result. rewriteNotionFileUrls_heap parse h recordMap pageId = Some (h', result)
            \<and> prefix h h'
            \<and> record_map_at h' recordMap = Some rm
            \<and> record_map_at h' result = Some (rewriteNotionFileUrls parse rm pageId)
            \<and> (signed_urls rm = None \<longrightarrow> h' = h \<and> result = recordMap))"
  using rewrite_in_heap_correct [OF assms, of "\<lambda>rm. pdf_step parse rm pageId"]
    rewrite_in_heap_correct [OF assms, of "\<lambda>rm. file_step parse rm pageId"]
  by (simp add: rewriteNotionPdfUrls_heap_def rewriteNotionFileUrls_heap_def
      rewriteNotionPdfUrls_def rewriteNotionFileUrls_def)

theorem rewriters_do_not_mutate_input_witness:
  "record_map_at sample_heap 2 = Some sample_record_map
   \<and> (\<exists>h' result. rewriteNotionPdfUrls_heap sample_hostname sample_heap 2 ''page 1'' = Some (h', result)
         \<and> prefix sample_heap h' \<and> record_map_at h' 2 = Some sample_record_map)
   \<and> (\<exists>h' result. rewriteNotionFileUrls_heap sample_hostname sample_heap 2 ''page 1'' = Some (h', result)
         \<and> prefix sample_heap h' \<and> record_map_at h' 2 = Some sample_record_map)"
proof -
  have at: "record_map_at sample_heap 2 = Some sample_record_map"
    by (simp add: record_map_at_def heap_read_def sample_heap_def sample_record_map_def)
  from rewriters_do_not_mutate_input [OF at, of sample_hostname "''page 1''"] at
  show ?thesis by blast
qed

section \<open>Properties of the handlers\<close>

lemma redirect_to_raw_target:
  "redirect_to_raw parse redirect recordMap blockId hs = Inr (Redirect st target hs') \<Longrightarrow>
     isAllowedHost parse (ToString target)"
  unfolding redirect_to_raw_def
  by (auto simp: Let_def split: if_splits option.splits)

lemma redirect_to_raw_not_allowed:
  "truthy (raw_source_of recordMap blockId) \<Longrightarrow>
   \<not> isAllowedHost parse (ToString (raw_source_of recordMap blockId)) \<Longrightarrow>
   redirect_to_raw parse redirect recordMap blockId hs = Inr (Json 400 ''Unexpected redirect target'')"
  by (simp add: redirect_to_raw_def)

lemma signed_try_no_fetch:
  "signed_try getPage parse redirect pageId blockId = (calls, hs, r) \<Longrightarrow> calls = [GetPage pageId True]"
  unfolding signed_try_def
  by (auto simp: Let_def split: if_splits option.splits sum.splits)

lemma signed_try_target:
  "signed_try getPage parse redirect pageId blockId = (calls, hs, Inr (Redirect st target hs')) \<Longrightarrow>
     isAllowedHost parse (ToString target)"
  unfolding signed_try_def
  by (auto simp: Let_def split: if_splits option.splits sum.splits dest: redirect_to_raw_target)

lemma unsigned_try_no_fetch:
  "unsigned_try getPage parse redirect pageId blockId hs = (calls, r) \<Longrightarrow> calls = [GetPage pageId False]"
  unfolding unsigned_try_def by (auto split: sum.splits)

lemma unsigned_try_target:
  "unsigned_try getPage parse redirect pageId blockId hs = (calls, Inr (Redirect st target hs')) \<Longrightarrow>
     isAllowedHost parse (ToString target)"
  unfolding unsigned_try_def
  by (auto split: sum.splits dest: redirect_to_raw_target)

lemma notionFileHandler_cases:
  assumes "notionFileHandler getPage parse redirect req = (calls, outcome)"
  obtains
    (invalid) "calls = []" "\<exists>n m. outcome = Inr (Json n m)"
  | (signed) pageId blockId hs sent where
      "signed_try getPage parse redirect pageId blockId = (calls, hs, Inr sent)"
      "outcome = Inr sent"
  | (unsigned) pageId blockId first hs err retry sent where
      "signed_try getPage parse redirect pageId blockId = (first, hs, Inl err)"
      "unsigned_try getPage parse redirect pageId blockId hs = (retry, Inr sent)"
      "calls = first @ retry" "outcome = Inr sent"
  | (failed) pageId blockId first hs err retry fallbackErr where
      "signed_try getPage parse redirect pageId blockId = (first, hs, Inl err)"
      "unsigned_try getPage parse redirect pageId blockId hs = (retry, Inl fallbackErr)"
      "calls = first @ retry" "outcome = Inr (Json 502 ''Failed to fetch signed URL'')"
  using assms unfolding notionFileHandler_def
  by (auto split: if_splits option.splits sum.splits prod.splits)

lemma notionFileHandler_no_fetch:
  assumes "notionFileHandler getPage parse redirect req = (calls, outcome)" and "c \<in> set calls"
  shows "\<not> is_fetch c"
  using assms(1)
proof (cases rule: notionFileHandler_cases)
  case invalid
  with assms(2) show ?thesis by simp
next
  case (signed pageId blockId hs sent)
  with assms(2) show ?thesis by (auto dest: signed_try_no_fetch)
next
  case (unsigned pageId blockId first hs err retry sent)
  with assms(2) show ?thesis by (auto dest: signed_try_no_fetch unsigned_try_no_fetch)
next
  case (failed pageId blockId first hs err retry fallbackErr)
  with assms(2) show ?thesis by (auto dest: signed_try_no_fetch unsigned_try_no_fetch)
qed

lemma notionFileHandler_redirect:
  assumes "notionFileHandler getPage parse redirect req = (calls, Inr (Redirect st target hs))"
  shows "isAllowedHost parse (ToString target)"
  using assms
proof (cases rule: notionFileHandler_cases)
  case invalid
  then show ?thesis by auto
next
  case (signed pageId blockId hs sent)
  then show ?thesis by (auto dest: signed_try_target)
next
  case (unsigned pageId blockId first hs err retry sent)
  then show ?thesis by (auto dest: unsigned_try_target)
next
  case (failed pageId blockId first hs err retry fallbackErr)
  then show ?thesis by simp
qed

lemma notionFileHandler_responds:
  "\<exists>sent. snd (notionFileHandler getPage parse redirect req) = Inr sent"
proof -
  obtain calls outcome where h: "notionFileHandler getPage parse redirect req = (calls, outcome)"
    by (cases "notionFileHandler getPage parse redirect req")
  then show ?thesis by (cases rule: notionFileHandler_cases) (auto simp: h)
qed

lemma resolvePdfUrl_no_fetch:
  "resolvePdfUrl getPage pageId blockId = (calls, r) \<Longrightarrow> c \<in> set calls \<Longrightarrow> \<not> is_fetch c"
  unfolding resolvePdfUrl_def
  by (auto simp: Let_def split: if_splits option.splits sum.splits jsval.splits)

lemma assetsPdfHandler_fetch:
  assumes "assetsPdfHandler getPage fetch parse req = (calls, resp)"
    and "Fetch url m hs \<in> set calls"
  shows "isAllowedHost parse url"
proof (rule ccontr)
  assume bad: "\<not> isAllowedHost parse url"
  have nf: "\<not> is_fetch (Fetch url m hs)"
    if "resolvePdfUrl getPage pageId blockId = (cs, r)" "Fetch url m hs \<in> set cs"
    for pageId blockId cs r
    using that by (rule resolvePdfUrl_no_fetch)
  from assms bad nf show False
    unfolding assetsPdfHandler_def
    by (auto simp: Let_def split: if_splits option.splits sum.splits prod.splits)
qed

lemma assetsPdfHandler_no_redirect:
  "assetsPdfHandler getPage fetch parse req = (calls, resp) \<Longrightarrow> resp \<noteq> Redirect st target hs"
  unfolding assetsPdfHandler_def
  by (auto simp: Let_def split: if_splits option.splits sum.splits prod.splits)

text \<open>
  Claim C2. The redirect handler makes no file fetch, and redirects only to a target that
  passed \<open>isAllowedHost\<close>; the streaming proxy fetches only a URL that passed
  \<open>isAllowedHost\<close>, and never redirects. Fail-closed: on a well-formed request, when the
  URL the redirect handler obtained (the fresh signed URL; the raw source URL of the
  signed fetch; the raw source URL of the unsigned retry, whether the retry follows a
  failed signed fetch or a redirect that threw) fails the check, the response is 400 and
  the only upstream calls are the page fetches; when the URL that \<open>resolvePdfUrl\<close>
  returned fails the check, the response of the streaming proxy is 400 and no file fetch
  is made.
\<close>

theorem upstream_url_checked_before_use:
  "(notionFileHandler getPage parse redirect req = (calls, outcome) \<longrightarrow>
      (\<forall>c \<in> set calls. \<not> is_fetch c)
      \<and> (\<forall>st target hs. outcome = Inr (Redirect st target hs)
            \<longrightarrow> isAllowedHost parse (ToString target)))
   \<and> (assetsPdfHandler getPage fetch parse req = (calls, resp) \<longrightarrow>
      (\<forall>url m hs. Fetch url m hs \<in> set calls \<longrightarrow> isAllowedHost parse url)
      \<and> (\<forall>st target hs. resp \<noteq> Redirect st target hs))
   \<and> (method req = Some ''GET'' \<and> nonempty_string (query req ''blockId'') = Some blockId
        \<and> nonempty_string (query req ''pageId'') = Some pageId \<longrightarrow>
      (getPage pageId True = Inr recordMap \<and> truthy (signed_url_of recordMap blockId)
         \<and> \<not> isAllowedHost parse (ToString (signed_url_of recordMap blockId)) \<longrightarrow>
       notionFileHandler getPage parse redirect req
         = ([GetPage pageId True], Inr (Json 400 ''Unexpected redirect target'')))
      \<and> (getPage pageId True = Inr recordMap \<and> \<not> truthy (signed_url_of recordMap blockId)
         \<and> truthy (raw_source_of recordMap blockId)
         \<and> \<not> isAllowedHost parse (ToString (raw_source_of recordMap blockId)) \<longrightarrow>
       notionFileHandler getPage parse redirect req
         = ([GetPage pageId True], Inr (Json 400 ''Unexpected redirect target'')))
      \<and> (getPage pageId True = Inl err \<and> getPage pageId False = Inr recordMap
         \<and> truthy (raw_source_of recordMap blockId)
         \<and> \<not> isAllowedHost parse (ToString (raw_source_of recordMap blockId)) \<longrightarrow>
       notionFileHandler getPage parse redirect req
         = ([GetPage pageId True, GetPage pageId False],
            Inr (Json 400 ''Unexpected redirect target'')))
      \<and> (signed_try getPage parse redirect pageId blockId = (first, set_headers, Inl err)
         \<and> getPage pageId False = Inr recordMap
         \<and> truthy (raw_source_of recordMap blockId)
         \<and> \<not> isAllowedHost parse (ToString (raw_source_of recordMap blockId)) \<longrightarrow>
       notionFileHandler getPage parse redirect req
         = ([GetPage pageId True, GetPage pageId False],
            Inr (Json 400 ''Unexpected redirect target''))))
   \<and> ((method req = Some ''GET'' \<or> method req = Some ''HEAD'')
        \<and> nonempty_string (query req ''blockId'') = Some blockId
        \<and> nonempty_string (query req ''pageId'') = Some pageId
        \<and> resolvePdfUrl getPage pageId blockId = (resolving, Inr upstreamUrl)
        \<and> \<not> isAllowedHost parse upstreamUrl \<longrightarrow>
      assetsPdfHandler getPage fetch parse req = (resolving, Json 400 ''Unexpected file host'')
      \<and> (\<forall>c \<in> set resolving. \<not> is_fetch c))"
proof (intro conjI impI)
  assume "notionFileHandler getPage parse redirect req = (calls, outcome)"
  then show "\<forall>c \<in> set calls. \<not> is_fetch c"
    by (blast dest: notionFileHandler_no_fetch)
next
  assume "notionFileHandler getPage parse redirect req = (calls, outcome)"
  then show "\<forall>st target hs. outcome = Inr (Redirect st target hs)
      \<longrightarrow> isAllowedHost parse (ToString target)"
    by (blast dest: notionFileHandler_redirect)
next
  assume "assetsPdfHandler getPage fetch parse req = (calls, resp)"
  then show "\<forall>url m hs. Fetch url m hs \<in> set calls \<longrightarrow> isAllowedHost parse url"
    by (blast dest: assetsPdfHandler_fetch)
next
  assume "assetsPdfHandler getPage fetch parse req = (calls, resp)"
  then show "\<forall>st target hs. resp \<noteq> Redirect st target hs"
    by (blast dest: assetsPdfHandler_no_redirect)
next
  assume "method req = Some ''GET'' \<and> nonempty_string (query req ''blockId'') = Some blockId
        \<and> nonempty_string (query req ''pageId'') = Some pageId"
    and "getPage pageId True = Inr recordMap \<and> truthy (signed_url_of recordMap blockId)
         \<and> \<not> isAllowedHost parse (ToString (signed_url_of recordMap blockId))"
  then show "notionFileHandler getPage parse redirect req
         = ([GetPage pageId True], Inr (Json 400 ''Unexpected redirect target''))"
    by (simp add: notionFileHandler_def signed_try_def)
next
  assume "method req = Some ''GET'' \<and> nonempty_string (query req ''blockId'') = Some blockId
        \<and> nonempty_string (query req ''pageId'') = Some pageId"
    and "getPage pageId True = Inr recordMap \<and> \<not> truthy (signed_url_of recordMap blockId)
         \<and> truthy (raw_source_of recordMap blockId)
         \<and> \<not> isAllowedHost parse (ToString (raw_source_of recordMap blockId))"
  then show "notionFileHandler getPage parse redirect req
         = ([GetPage pageId True], Inr (Json 400 ''Unexpected redirect target''))"
    by (simp add: notionFileHandler_def signed_try_def redirect_to_raw_not_allowed)
next
  assume "method req = Some ''GET'' \<and> nonempty_string (query req ''blockId'') = Some blockId
        \<and> nonempty_string (query req ''pageId'') = Some pageId"
    and "getPage pageId True = Inl err \<and> getPage pageId False = Inr recordMap
         \<and> truthy (raw_source_of recordMap blockId)
         \<and> \<not> isAllowedHost parse (ToString (raw_source_of recordMap blockId))"
  then show "notionFileHandler getPage parse redirect req
         = ([GetPage pageId True, GetPage pageId False],
            Inr (Json 400 ''Unexpected redirect target''))"
    by (simp add: notionFileHandler_def signed_try_def unsigned_try_def redirect_to_raw_not_allowed)
next
  assume v: "method req = Some ''GET'' \<and> nonempty_string (query req ''blockId'') = Some blockId
        \<and> nonempty_string (query req ''pageId'') = Some pageId"
    and s: "signed_try getPage parse redirect pageId blockId = (first, set_headers, Inl err)
         \<and> getPage pageId False = Inr recordMap
         \<and> truthy (raw_source_of recordMap blockId)
         \<and> \<not> isAllowedHost parse (ToString (raw_source_of recordMap blockId))"
  from s have "first = [GetPage pageId True]" by (blast dest: signed_try_no_fetch)
  with v s show "notionFileHandler getPage parse redirect req
         = ([GetPage pageId True, GetPage pageId False],
            Inr (Json 400 ''Unexpected redirect target''))"
    by (simp add: notionFileHandler_def unsigned_try_def redirect_to_raw_not_allowed)
next
  assume a: "(method req = Some ''GET'' \<or> method req = Some ''HEAD'')
        \<and> nonempty_string (query req ''blockId'') = Some blockId
        \<and> nonempty_string (query req ''pageId'') = Some pageId
        \<and> resolvePdfUrl getPage pageId blockId = (resolving, Inr upstreamUrl)
        \<and> \<not> isAllowedHost parse upstreamUrl"
  then show "assetsPdfHandler getPage fetch parse req = (resolving, Json 400 ''Unexpected file host'')"
    by (auto simp: assetsPdfHandler_def)
  from a show "\<forall>c \<in> set resolving. \<not> is_fetch c"
    by (blast dest: resolvePdfUrl_no_fetch)
qed

theorem upstream_url_checked_before_use_witness:
  "notionFileHandler sample_getPage sample_hostname sample_redirect
      (sample_request ''GET'' ''page 4'' ''b1'')
     = ([GetPage ''page 4'' True], Inr (Json 400 ''Unexpected redirect target''))
   \<and> resolvePdfUrl sample_getPage ''page 4'' ''b1''
     = ([GetPage ''page 4'' True], Inr ''https://example.com/a.png'')
   \<and> \<not> isAllowedHost sample_hostname ''https://example.com/a.png''
   \<and> assetsPdfHandler sample_getPage sample_fetch sample_hostname
      (sample_request ''GET'' ''page 4'' ''b1'')
     = ([GetPage ''page 4'' True], Json 400 ''Unexpected file host'')
   \<and> notionFileHandler sample_getPage sample_hostname sample_redirect
      (sample_request ''GET'' ''page 2'' ''b1'')
     = ([GetPage ''page 2'' True],
        Inr (Redirect 302 (Some (JString ''https://s3.amazonaws.com/x''))
          [(''Cache-Control'', ''public, s-maxage=3300, stale-while-revalidate=86400'')]))
   \<and> isAllowedHost sample_hostname ''https://s3.amazonaws.com/x''"
proof -
  let ?req = "sample_request ''GET'' ''page 4'' ''b1''"
  have valid: "method ?req = Some ''GET''"
    "nonempty_string (query ?req ''blockId'') = Some ''b1''"
    "nonempty_string (query ?req ''pageId'') = Some ''page 4''"
    by (simp_all add: sample_request_def)
  have page: "sample_getPage ''page 4'' True = Inr sample_foreign_map"
    by (simp add: sample_getPage_def)
  have fresh: "signed_url_of sample_foreign_map ''b1'' = Some (JString ''https://example.com/a.png'')"
    by (simp add: signed_url_of_def get_property_def sample_foreign_map_def)
  have bad: "\<not> isAllowedHost sample_hostname ''https://example.com/a.png''"
    by (simp add: isAllowedHost_def sample_hostname_def ALLOWED_HOSTS_def endsWith_def)
  have res: "resolvePdfUrl sample_getPage ''page 4'' ''b1''
     = ([GetPage ''page 4'' True], Inr ''https://example.com/a.png'')"
    by (simp add: resolvePdfUrl_def page fresh)
  have good: "notionFileHandler sample_getPage sample_hostname sample_redirect
      (sample_request ''GET'' ''page 2'' ''b1'')
     = ([GetPage ''page 2'' True],
        Inr (Redirect 302 (Some (JString ''https://s3.amazonaws.com/x''))
          [(''Cache-Control'', ''public, s-maxage=3300, stale-while-revalidate=86400'')]))"
    by (simp add: notionFileHandler_def signed_try_def sample_request_def sample_getPage_def
        signed_url_of_def get_property_def sample_record_map_def isAllowedHost_def
        sample_hostname_def ALLOWED_HOSTS_def endsWith_def sample_redirect_def Let_def)
  note inst = upstream_url_checked_before_use [where getPage = sample_getPage
      and parse = sample_hostname and redirect = sample_redirect
      and fetch = sample_fetch and req = ?req
      and blockId = "''b1''" and pageId = "''page 4''" and recordMap = sample_foreign_map
      and resolving = "[GetPage ''page 4'' True]" and upstreamUrl = "''https://example.com/a.png''"]
  note inst2 = upstream_url_checked_before_use [where getPage = sample_getPage
      and parse = sample_hostname and redirect = sample_redirect
      and req = "sample_request ''GET'' ''page 2'' ''b1''"
      and calls = "[GetPage ''page 2'' True]"
      and outcome = "Inr (Redirect 302 (Some (JString ''https://s3.amazonaws.com/x''))
          [(''Cache-Control'', ''public, s-maxage=3300, stale-while-revalidate=86400'')])"]
  from inst valid page fresh bad
  have r1: "notionFileHandler sample_getPage sample_hostname sample_redirect ?req
     = ([GetPage ''page 4'' True], Inr (Json 400 ''Unexpected redirect target''))"
    by simp
  from inst valid res bad
  have r2: "assetsPdfHandler sample_getPage sample_fetch sample_hostname ?req
     = ([GetPage ''page 4'' True], Json 400 ''Unexpected file host'')"
    by simp
  from inst2 good have r3: "isAllowedHost sample_hostname ''https://s3.amazonaws.com/x''"
    by simp
  from r1 r2 r3 res bad good show ?thesis by simp
qed

text \<open>
  Claim C3 as stated says that the handler answers 302 whenever the retry yields a raw
  source URL on an allowed host. The redirect itself is inside the inner \<^verbatim>\<open>try\<close>: when
  \<^verbatim>\<open>res.redirect\<close> throws, the inner \<^verbatim>\<open>catch\<close> answers 502. Here the signed fetch throws,
  the retry yields a raw source URL that ends in a line feed, the URL parser drops the line
  feed and reads the allowed host \<^verbatim>\<open>s3.amazonaws.com\<close>, the redirect refuses the line feed
  in the \<^verbatim>\<open>Location\<close> value, and the answer is 502.
\<close>

theorem refused_redirect_gives_502:
  "sample_getPage ''page 7'' True = Inl ''signing needs a token''
   \<and> sample_getPage ''page 7'' False = Inr sample_linefeed_map
   \<and> raw_source_of sample_linefeed_map ''b1''
       = Some (JString (''https://s3.amazonaws.com/x'' @ [CHR 0x0A]))
   \<and> isAllowedHost sample_hostname (''https://s3.amazonaws.com/x'' @ [CHR 0x0A])
   \<and> notionFileHandler sample_getPage sample_hostname sample_redirect
        (sample_request ''GET'' ''page 7'' ''b1'')
       = ([GetPage ''page 7'' True, GetPage ''page 7'' False],
          Inr (Json 502 ''Failed to fetch signed URL''))"
  by (simp add: notionFileHandler_def signed_try_def unsigned_try_def redirect_to_raw_def
      sample_request_def sample_getPage_def sample_linefeed_map_def raw_source_of_def
      block_value_def isAllowedHost_def sample_hostname_def ALLOWED_HOSTS_def endsWith_def
      sample_redirect_def)

text \<open>
  Claim C3, amended. The redirect handler sends a response on every request: no error
  leaves it. On a well-formed GET request whose signed page fetch throws, it makes exactly
  one more call, the page fetch with signing disabled. When the retry yields a raw source
  URL that passes the check and the redirect to it is issued, the response is a 302
  redirect to it; when the retry yields no URL, the response is 404; when the retry
  throws, or the redirect throws, the response is 502.
\<close>

theorem signed_fetch_failure_falls_back_once:
  "(\<exists>sent. snd (notionFileHandler getPage parse redirect req) = Inr sent)
   \<and> (method req = Some ''GET'' \<and> nonempty_string (query req ''blockId'') = Some blockId
       \<and> nonempty_string (query req ''pageId'') = Some pageId
       \<and> getPage pageId True = Inl err \<longrightarrow>
      fst (notionFileHandler getPage parse redirect req)
        = [GetPage pageId True, GetPage pageId False]
      \<and> (\<forall>recordMap. getPage pageId False = Inr recordMap
            \<and> truthy (raw_source_of recordMap blockId)
            \<and> isAllowedHost parse (ToString (raw_source_of recordMap blockId))
            \<and> redirect (raw_source_of recordMap blockId) = None \<longrightarrow>
          snd (notionFileHandler getPage parse redirect req)
            = Inr (Redirect 302 (raw_source_of recordMap blockId) []))
      \<and> (\<forall>recordMap thrown. getPage pageId False = Inr recordMap
            \<and> truthy (raw_source_of recordMap blockId)
            \<and> isAllowedHost parse (ToString (raw_source_of recordMap blockId))
            \<and> redirect (raw_source_of recordMap blockId) = Some thrown \<longrightarrow>
          snd (notionFileHandler getPage parse redirect req)
            = Inr (Json 502 ''Failed to fetch signed URL''))
      \<and> (\<forall>recordMap. getPage pageId False = Inr recordMap
            \<and> \<not> truthy (raw_source_of recordMap blockId) \<longrightarrow>
          snd (notionFileHandler getPage parse redirect req)
            = Inr (Json 404 ''File URL not found for block''))
      \<and> (\<forall>fallbackErr. getPage pageId False = Inl fallbackErr \<longrightarrow>
          snd (notionFileHandler getPage parse redirect req)
            = Inr (Json 502 ''Failed to fetch signed URL'')))"
proof (intro conjI impI)
  show "\<exists>sent. snd (notionFileHandler getPage parse redirect req) = Inr sent"
    by (rule notionFileHandler_responds)
next
  assume a: "method req = Some ''GET'' \<and> nonempty_string (query req ''blockId'') = Some blockId
       \<and> nonempty_string (query req ''pageId'') = Some pageId
       \<and> getPage pageId True = Inl err"
  then show "fst (notionFileHandler getPage parse redirect req)
        = [GetPage pageId True, GetPage pageId False]"
    by (cases "getPage pageId False")
       (auto simp: notionFileHandler_def signed_try_def unsigned_try_def
          split: sum.splits prod.splits)
  from a show "\<forall>recordMap. getPage pageId False = Inr recordMap
            \<and> truthy (raw_source_of recordMap blockId)
            \<and> isAllowedHost parse (ToString (raw_source_of recordMap blockId))
            \<and> redirect (raw_source_of recordMap blockId) = None \<longrightarrow>
          snd (notionFileHandler getPage parse redirect req)
            = Inr (Redirect 302 (raw_source_of recordMap blockId) [])"
    by (simp add: notionFileHandler_def signed_try_def unsigned_try_def redirect_to_raw_def)
  from a show "\<forall>recordMap thrown. getPage pageId False = Inr recordMap
            \<and> truthy (raw_source_of recordMap blockId)
            \<and> isAllowedHost parse (ToString (raw_source_of recordMap blockId))
            \<and> redirect (raw_source_of recordMap blockId) = Some thrown \<longrightarrow>
          snd (notionFileHandler getPage parse redirect req)
            = Inr (Json 502 ''Failed to fetch signed URL'')"
    by (simp add: notionFileHandler_def signed_try_def unsigned_try_def redirect_to_raw_def)
  from a show "\<forall>recordMap. getPage pageId False = Inr recordMap
            \<and> \<not> truthy (raw_source_of recordMap blockId) \<longrightarrow>
          snd (notionFileHandler getPage parse redirect req)
            = Inr (Json 404 ''File URL not found for block'')"
    by (simp add: notionFileHandler_def signed_try_def unsigned_try_def redirect_to_raw_def)
  from a show "\<forall>fallbackErr. getPage pageId False = Inl fallbackErr \<longrightarrow>
          snd (notionFileHandler getPage parse redirect req)
            = Inr (Json 502 ''Failed to fetch signed URL'')"
    by (simp add: notionFileHandler_def signed_try_def unsigned_try_def)
qed

theorem signed_fetch_failure_falls_back_once_witness:
  "sample_getPage ''page 1'' True = Inl ''signing needs a token''
   \<and> sample_redirect (Some (JString ''https://notion.so/f.pdf'')) = None
   \<and> notionFileHandler sample_getPage sample_hostname sample_redirect
        (sample_request ''GET'' ''page 1'' ''b1'')
       = ([GetPage ''page 1'' True, GetPage ''page 1'' False],
          Inr (Redirect 302 (Some (JString ''https://notion.so/f.pdf'')) []))"
proof -
  let ?req = "sample_request ''GET'' ''page 1'' ''b1''"
  have valid: "method ?req = Some ''GET''"
    "nonempty_string (query ?req ''blockId'') = Some ''b1''"
    "nonempty_string (query ?req ''pageId'') = Some ''page 1''"
    by (simp_all add: sample_request_def)
  have signed: "sample_getPage ''page 1'' True = Inl ''signing needs a token''"
    and unsigned: "sample_getPage ''page 1'' False = Inr sample_record_map"
    by (simp_all add: sample_getPage_def)
  have raw: "raw_source_of sample_record_map ''b1'' = Some (JString ''https://notion.so/f.pdf'')"
    by (simp add: raw_source_of_def block_value_def sample_record_map_def)
  have ok: "isAllowedHost sample_hostname ''https://notion.so/f.pdf''"
    by (simp add: isAllowedHost_def sample_hostname_def ALLOWED_HOSTS_def endsWith_def)
  have sent: "sample_redirect (Some (JString ''https://notion.so/f.pdf'')) = None"
    by (simp add: sample_redirect_def)
  from signed_fetch_failure_falls_back_once [where req = ?req and getPage = sample_getPage
      and parse = sample_hostname and redirect = sample_redirect
      and blockId = "''b1''" and pageId = "''page 1''"
      and err = "''signing needs a token''", THEN conjunct2] valid signed unsigned raw ok sent
  have "fst (notionFileHandler sample_getPage sample_hostname sample_redirect ?req)
          = [GetPage ''page 1'' True, GetPage ''page 1'' False]"
    and "snd (notionFileHandler sample_getPage sample_hostname sample_redirect ?req)
          = Inr (Redirect 302 (Some (JString ''https://notion.so/f.pdf'')) [])"
    by simp_all
  with signed sent show ?thesis by (simp add: prod_eq_iff)
qed






end
